theory Spec2Isabelle
  imports Main "HOL-Library.Sublist" "HOL-Library.AList"
begin

section \<open>Python strings\<close>

text \<open>
  Strings are lists of characters; a character stands for one code point below 256.
  \<open>lower\<close> and \<open>strip\<close> follow Python's \<open>str.lower\<close> and \<open>str.strip\<close> on that range,
  \<open>str_in w s\<close> is Python's \<open>w in s\<close> on strings, \<open>replace\<close> is \<open>s.replace(old, new)\<close>
  and \<open>str_int\<close> is \<open>str\<close> on an integer.
\<close>

definition lower_char :: "char \<Rightarrow> char" where
  "lower_char c =
     (let n = (of_char c :: nat)
      in if (65 \<le> n \<and> n \<le> 90) \<or> (192 \<le> n \<and> n \<le> 214) \<or> (216 \<le> n \<and> n \<le> 222)
         then char_of (n + 32) else c)"

definition lower :: "string \<Rightarrow> string" where
  "lower s = map lower_char s"

definition isspace :: "char \<Rightarrow> bool" where
  "isspace c =
     (let n = (of_char c :: nat)
      in (9 \<le> n \<and> n \<le> 13) \<or> (28 \<le> n \<and> n \<le> 32) \<or> n = 133 \<or> n = 160)"

definition strip :: "string \<Rightarrow> string" where
  "strip s = rev (dropWhile isspace (rev (dropWhile isspace s)))"

fun str_in :: "string \<Rightarrow> string \<Rightarrow> bool" where
  "str_in w [] = (w = [])"
| "str_in w (c # cs) = (prefix w (c # cs) \<or> str_in w cs)"

function replace :: "string \<Rightarrow> string \<Rightarrow> string \<Rightarrow> string" where
  "replace old new s =
     (if old = [] then new @ concat (map (\<lambda>c. c # new) s)
      else if s = [] then []
      else if prefix old s then new @ replace old new (drop (length old) s)
      else hd s # replace old new (tl s))"
  by pat_completeness auto
termination
  by (relation "measure (\<lambda>(old, new, s). length s)") (auto simp: neq_Nil_conv)

declare replace.simps [simp del]

definition digit_char :: "nat \<Rightarrow> char" where
  "digit_char d = char_of (48 + d)"

function str_nat :: "nat \<Rightarrow> string" where
  "str_nat n = (if n < 10 then [digit_char n] else str_nat (n div 10) @ [digit_char (n mod 10)])"
  by pat_completeness auto
termination
  by (relation "measure id") auto

declare str_nat.simps [simp del]

definition str_int :: "int \<Rightarrow> string" where
  "str_int i = (if i < 0 then CHR ''-'' # str_nat (nat (- i)) else str_nat (nat i))"

definition nl :: string where
  "nl = [CHR 0x0A]"

datatype py_error =
    TypeError
  | AttributeError
  | IndexError
  | RegexError
  | DocumentNotFound int
  | TemplateNotFound int
  | TemplateWithoutClauses int
  | ClauseNotFound int
  | MandatoryClauseNotFilled string

section \<open>Validation of an answer (nda\_creator\_agent\_tools.py)\<close>

text \<open>
  A clause of the agent tools (models/clause\_model.py). \<open>alert_conditions\<close>,
  \<open>suggestions\<close> and \<open>type_alternatives\<close> are Python dicts, kept as association lists in
  insertion order. An alert condition is itself a dict read with \<open>.get\<close>, so each of
  its three entries may be absent; its value is a string, an integer or a list of them.
  Timestamps are left out.
\<close>

datatype ClauseType = MANDATORY | OPTIONAL

datatype atom = AStr string | AInt int

datatype cond_value = Single atom | Many "atom list"

record condition_data =
  cd_type :: "string option"
  cd_value :: "cond_value option"
  cd_message :: "string option"

record Clause =
  c_id :: int
  c_doc_template_id :: int
  c_order_num :: int
  c_section_name :: string
  c_type :: ClauseType
  c_type_alternatives :: "(string \<times> string) list"
  c_alert_conditions :: "(string \<times> condition_data) list"
  c_suggestions :: "(string \<times> string) list"
  c_system_prompt :: string

record validation_result =
  valid :: bool
  message :: string

text \<open>
  \<open>re.search(pattern, response, re.IGNORECASE)\<close> is not part of the repository: it is a
  parameter \<open>re_search\<close>, which says whether the pattern is found, or raises.
\<close>

type_synonym regex_search = "string \<Rightarrow> string \<Rightarrow> py_error + bool"

definition quoted :: "string \<Rightarrow> string" where
  "quoted s = [CHR 0x27] @ s @ [CHR 0x27]"

definition as_list :: "cond_value \<Rightarrow> atom list" where
  "as_list v = (case v of Many xs \<Rightarrow> xs | Single a \<Rightarrow> [a])"

text \<open>
  The two inner loops over words. \<open>None\<close> means that the loop ran to its end without
  returning; a word that is not a string has no \<open>lower\<close> method.
\<close>

fun forbidden_words_loop ::
  "string \<Rightarrow> string \<Rightarrow> atom list \<Rightarrow> py_error + validation_result option" where
  "forbidden_words_loop alert_message response_lower [] = Inr None"
| "forbidden_words_loop alert_message response_lower (AInt n # ws) = Inl AttributeError"
| "forbidden_words_loop alert_message response_lower (AStr word # ws) =
     (if str_in (lower word) response_lower
      then Inr (Some \<lparr>valid = False,
             message = alert_message @ nl @ nl @ ''Forbidden word detected: '' @ quoted word\<rparr>)
      else forbidden_words_loop alert_message response_lower ws)"

fun required_terms_loop ::
  "string \<Rightarrow> string \<Rightarrow> atom list \<Rightarrow> py_error + validation_result option" where
  "required_terms_loop alert_message response_lower [] = Inr None"
| "required_terms_loop alert_message response_lower (AInt n # ts) = Inl AttributeError"
| "required_terms_loop alert_message response_lower (AStr term # ts) =
     (if \<not> str_in (lower term) response_lower
      then Inr (Some \<lparr>valid = False,
             message = alert_message @ nl @ nl @ ''Required term missing: '' @ quoted term\<rparr>)
      else required_terms_loop alert_message response_lower ts)"

text \<open>
  The body of the loop over \<open>alert_conditions.items()\<close>, for one condition: the
  \<open>if\<close>/\<open>elif\<close> chain on the condition's type. \<open>Inr None\<close> means that the body ended
  without returning, so the loop goes on to the next condition.
\<close>

definition check_condition ::
  "regex_search \<Rightarrow> string \<Rightarrow> string \<Rightarrow> condition_data \<Rightarrow> py_error + validation_result option" where
  "check_condition re_search response condition_name condition_data =
     (let response_lower = strip (lower response);
          condition_type = (case cd_type condition_data of None \<Rightarrow> [] | Some t \<Rightarrow> t);
          condition_value = (case cd_value condition_data of None \<Rightarrow> Single (AStr []) | Some v \<Rightarrow> v);
          alert_message = (case cd_message condition_data of
                             None \<Rightarrow> ''Alert condition '' @ quoted condition_name @ '' triggered''
                           | Some m \<Rightarrow> m)
      in if condition_type = ''contains_forbidden_words''
         then forbidden_words_loop alert_message response_lower (as_list condition_value)
         else if condition_type = ''min_length''
         then (case condition_value of
                 Single (AInt n) \<Rightarrow>
                   if int (length (strip response)) < n
                   then Inr (Some \<lparr>valid = False,
                          message = alert_message @ nl @ nl @ ''Minimum length required: ''
                                    @ str_int n @ '' characters''\<rparr>)
                   else Inr None
               | _ \<Rightarrow> Inl TypeError)
         else if condition_type = ''max_length''
         then (case condition_value of
                 Single (AInt n) \<Rightarrow>
                   if int (length (strip response)) > n
                   then Inr (Some \<lparr>valid = False,
                          message = alert_message @ nl @ nl @ ''Maximum length allowed: ''
                                    @ str_int n @ '' characters''\<rparr>)
                   else Inr None
               | _ \<Rightarrow> Inl TypeError)
         else if condition_type = ''required_pattern''
         then (case condition_value of
                 Single (AStr pattern) \<Rightarrow>
                   (case re_search pattern response of
                      Inl e \<Rightarrow> Inl e
                    | Inr found \<Rightarrow>
                        if \<not> found
                        then Inr (Some \<lparr>valid = False,
                               message = alert_message @ nl @ nl @ ''Required pattern not found: ''
                                         @ pattern\<rparr>)
                        else Inr None)
               | _ \<Rightarrow> Inl TypeError)
         else if condition_type = ''must_contain''
         then required_terms_loop alert_message response_lower (as_list condition_value)
         else Inr None)"

fun alert_conditions_loop ::
  "regex_search \<Rightarrow> string \<Rightarrow> (string \<times> condition_data) list \<Rightarrow> py_error + validation_result" where
  "alert_conditions_loop re_search response [] = Inr \<lparr>valid = True, message = []\<rparr>"
| "alert_conditions_loop re_search response ((condition_name, condition_data) # rest) =
     (case check_condition re_search response condition_name condition_data of
        Inl e \<Rightarrow> Inl e
      | Inr (Some r) \<Rightarrow> Inr r
      | Inr None \<Rightarrow> alert_conditions_loop re_search response rest)"

definition validate_response :: "regex_search \<Rightarrow> string \<Rightarrow> Clause \<Rightarrow> py_error + validation_result" where
  "validate_response re_search response clause =
     (if c_alert_conditions clause = [] then Inr \<lparr>valid = True, message = []\<rparr>
      else alert_conditions_loop re_search response (c_alert_conditions clause))"

section \<open>The agent's session and its store (nda\_creator\_agent\_tools.py, nda\_database\_crud.py)\<close>

text \<open>
  The tables \<open>doc_templates\<close> and \<open>documents_agents\<close> are lists of rows. A query with
  \<open>WHERE id = ...\<close> followed by \<open>fetchone\<close> yields the first matching row, or \<open>None\<close>; an
  \<open>UPDATE\<close> changes every matching row. Timestamps are left out.
\<close>

record DocTemplateModel =
  dtm_id :: int
  dtm_name :: string

record DocumentAgent =
  da_id :: int
  da_doc_template_id :: int
  da_content :: "(string \<times> string) list"
  da_status :: string
  da_current_clause_order :: int

record crud_db =
  crud_doc_templates :: "DocTemplateModel list"
  crud_documents_agents :: "DocumentAgent list"

definition get_doc_template :: "crud_db \<Rightarrow> int option \<Rightarrow> DocTemplateModel option" where
  "get_doc_template db template_id =
     (case template_id of
        None \<Rightarrow> None
      | Some t \<Rightarrow> find (\<lambda>r. dtm_id r = t) (crud_doc_templates db))"

definition get_document_agent :: "crud_db \<Rightarrow> int \<Rightarrow> DocumentAgent option" where
  "get_document_agent db doc_id = find (\<lambda>r. da_id r = doc_id) (crud_documents_agents db)"

text \<open>
  \<open>update_document_agent_content\<close> reads the row's content, sets one key and writes the
  content and \<open>current_clause_order\<close> back in one \<open>UPDATE\<close>. On a missing row
  \<open>fetchone()\<close> is \<open>None\<close> and subscripting it raises.
\<close>

definition update_document_agent_content ::
  "crud_db \<Rightarrow> int \<Rightarrow> string \<Rightarrow> string \<Rightarrow> int \<Rightarrow> py_error + (DocumentAgent \<times> crud_db)" where
  "update_document_agent_content db doc_id section_name content current_clause_order =
     (case find (\<lambda>r. da_id r = doc_id) (crud_documents_agents db) of
        None \<Rightarrow> Inl TypeError
      | Some row \<Rightarrow>
          let current_content = AList.update section_name content (da_content row);
              result = row\<lparr>da_content := current_content,
                          da_current_clause_order := current_clause_order\<rparr>
          in Inr (result,
                  db\<lparr>crud_documents_agents :=
                       map (\<lambda>r. if da_id r = doc_id
                                 then r\<lparr>da_content := current_content,
                                        da_current_clause_order := current_clause_order\<rparr>
                                 else r)
                           (crud_documents_agents db)\<rparr>))"

definition complete_document_agent :: "crud_db \<Rightarrow> int \<Rightarrow> py_error + (DocumentAgent \<times> crud_db)" where
  "complete_document_agent db doc_id =
     (case find (\<lambda>r. da_id r = doc_id) (crud_documents_agents db) of
        None \<Rightarrow> Inl TypeError
      | Some row \<Rightarrow>
          Inr (row\<lparr>da_status := ''completed''\<rparr>,
               db\<lparr>crud_documents_agents :=
                    map (\<lambda>r. if da_id r = doc_id then r\<lparr>da_status := ''completed''\<rparr> else r)
                        (crud_documents_agents db)\<rparr>))"

text \<open>
  The agent object: the fields the tools read and write on \<open>self\<close>, with \<open>self.db\<close> as
  \<open>self_db\<close>. The clause index is set to 0 and only ever incremented, so it is a natural
  number.
\<close>

record agent =
  current_document_id :: "int option"
  current_template_id :: "int option"
  current_clauses :: "Clause list"
  current_clause_index :: nat
  self_db :: crud_db

text \<open>
  What a tool returns is a message built from a fixed text and a few values; a reply is the
  message's kind together with those values.
\<close>

record clause_prompt =
  cp_position :: nat
  cp_total :: nat
  cp_section_name :: string
  cp_type :: ClauseType
  cp_inclusion_question :: bool
  cp_system_prompt :: string
  cp_suggestions :: "(string \<times> string) list"
  cp_type_alternatives :: "(string \<times> string) list"

record final_document =
  fd_template_name :: string
  fd_document_id :: int
  fd_sections :: "(string \<times> string) list"

datatype reply =
    NoActiveSession
  | ValidationAlert string string string
  | SectionCompleted string string
  | ErrorProcessingResponse py_error
  | CannotSkipMandatory string
  | SectionNameMismatch string
  | OptionalClauseSkipped string
  | ErrorSkippingClause py_error
  | AllClausesCompletedNotice
  | AllClausesCompleted
  | ClausePrompt clause_prompt
  | NoActiveDocumentSession
  | DocumentNotFoundReply
  | CannotCompleteDocument "string list"
  | DocumentCompleted int string nat final_document
  | ErrorCompletingDocument py_error

text \<open>\<open>not self.current_document_id\<close>: the id is \<open>None\<close> or 0.\<close>

definition no_document_id :: "agent \<Rightarrow> bool" where
  "no_document_id self = (case current_document_id self of None \<Rightarrow> True | Some i \<Rightarrow> i = 0)"

definition agent_process_clause_response :: "regex_search \<Rightarrow> agent \<Rightarrow> string \<Rightarrow> reply \<times> agent" where
  "agent_process_clause_response re_search self user_response =
     (if no_document_id self \<or> current_clause_index self \<ge> length (current_clauses self)
      then (NoActiveSession, self)
      else
        let current_clause = current_clauses self ! current_clause_index self
        in case validate_response re_search user_response current_clause of
             Inl e \<Rightarrow> (ErrorProcessingResponse e, self)
           | Inr validation_result \<Rightarrow>
               if \<not> valid validation_result
               then (ValidationAlert (message validation_result)
                       (c_section_name current_clause) (c_system_prompt current_clause), self)
               else
                 (case update_document_agent_content (self_db self) (the (current_document_id self))
                         (c_section_name current_clause) user_response (c_order_num current_clause) of
                    Inl e \<Rightarrow> (ErrorProcessingResponse e, self)
                  | Inr (doc, db') \<Rightarrow>
                      (SectionCompleted (c_section_name current_clause) user_response,
                       self\<lparr>self_db := db'\<rparr>)))"

definition skip_optional_clause :: "agent \<Rightarrow> string \<Rightarrow> reply \<times> agent" where
  "skip_optional_clause self section_name =
     (if current_clause_index self \<ge> length (current_clauses self)
      then (ErrorSkippingClause IndexError, self)
      else
        let current_clause = current_clauses self ! current_clause_index self
        in if c_type current_clause \<noteq> OPTIONAL
           then (CannotSkipMandatory (c_section_name current_clause), self)
           else if c_section_name current_clause \<noteq> section_name
           then (SectionNameMismatch (c_section_name current_clause), self)
           else (OptionalClauseSkipped section_name, self))"

definition get_current_clause_prompt :: "agent \<Rightarrow> reply" where
  "get_current_clause_prompt self =
     (if current_clause_index self \<ge> length (current_clauses self)
      then AllClausesCompletedNotice
      else
        let current_clause = current_clauses self ! current_clause_index self
        in ClausePrompt
             \<lparr>cp_position = current_clause_index self + 1,
              cp_total = length (current_clauses self),
              cp_section_name = c_section_name current_clause,
              cp_type = c_type current_clause,
              cp_inclusion_question = (c_type current_clause = OPTIONAL),
              cp_system_prompt = c_system_prompt current_clause,
              cp_suggestions = c_suggestions current_clause,
              cp_type_alternatives = c_type_alternatives current_clause\<rparr>)"

definition finalize_document :: "agent \<Rightarrow> reply" where
  "finalize_document self = AllClausesCompleted"

definition proceed_to_next_clause :: "agent \<Rightarrow> reply \<times> agent" where
  "proceed_to_next_clause self =
     (let self' = self\<lparr>current_clause_index := current_clause_index self + 1\<rparr>
      in if current_clause_index self' \<ge> length (current_clauses self')
         then (finalize_document self', self')
         else (get_current_clause_prompt self', self'))"

definition generate_final_document :: "agent \<Rightarrow> DocumentAgent \<Rightarrow> DocTemplateModel \<Rightarrow> final_document" where
  "generate_final_document self doc_agent template =
     \<lparr>fd_template_name = dtm_name template,
      fd_document_id = da_id doc_agent,
      fd_sections =
        map (\<lambda>clause. (c_section_name clause,
                        the (map_of (da_content doc_agent) (c_section_name clause))))
            (filter (\<lambda>clause. c_section_name clause \<in> fst ` set (da_content doc_agent))
                    (current_clauses self))\<rparr>"

definition complete_nda_document :: "agent \<Rightarrow> reply \<times> agent" where
  "complete_nda_document self =
     (if no_document_id self then (NoActiveDocumentSession, self)
      else
        case get_document_agent (self_db self) (the (current_document_id self)) of
          None \<Rightarrow> (DocumentNotFoundReply, self)
        | Some doc_agent \<Rightarrow>
            let mandatory_clauses = filter (\<lambda>c. c_type c = MANDATORY) (current_clauses self);
                completed_mandatory =
                  map c_section_name
                    (filter (\<lambda>c. c_section_name c \<in> fst ` set (da_content doc_agent)) mandatory_clauses)
            in if length completed_mandatory < length mandatory_clauses
               then
                 let missing =
                       map c_section_name
                         (filter (\<lambda>c. c_section_name c \<notin> fst ` set (da_content doc_agent))
                                 mandatory_clauses)
                 in (CannotCompleteDocument missing, self)
               else
                 (case complete_document_agent (self_db self) (the (current_document_id self)) of
                    Inl e \<Rightarrow> (ErrorCompletingDocument e, self)
                  | Inr (completed_doc, db') \<Rightarrow>
                      (case get_doc_template db' (current_template_id self) of
                         None \<Rightarrow> (ErrorCompletingDocument AttributeError, self\<lparr>self_db := db'\<rparr>)
                       | Some template \<Rightarrow>
                           (DocumentCompleted (da_id completed_doc) (dtm_name template)
                              (length (da_content completed_doc))
                              (generate_final_document self completed_doc template),
                            self\<lparr>current_document_id := None,
                                 current_template_id := None,
                                 current_clauses := [],
                                 current_clause_index := 0,
                                 self_db := db'\<rparr>))))"

section \<open>The document tools and their store (document\_tools.py, nda\_database.py)\<close>

text \<open>
  Rows of \<open>doc_templates\<close>, \<open>template_clauses\<close> and \<open>live_documents\<close>. A clause's type and
  a document's status are strings here. The content of a document is a dict from section
  names to texts, kept in insertion order. Timestamps and a clause's unused
  \<open>validation_rules\<close> are left out, and so is the \<open>progress\<close> entry of \<open>DocumentInfo\<close>,
  whose percentage is floating-point arithmetic.
\<close>

record DocTemplate =
  dt_id :: int
  dt_agent_id :: string
  dt_name :: string
  dt_description :: string
  dt_active :: bool

record TemplateClause =
  tc_id :: int
  tc_doc_template_id :: int
  tc_section_name :: string
  tc_order_num :: int
  tc_type :: string
  tc_system_prompt :: string
  tc_content_template :: "string option"
  tc_placeholders :: "(string \<times> bool \<times> string) list"

record LiveDocument =
  ld_id :: int
  ld_user_id :: string
  ld_doc_template_id :: int
  ld_content :: "(string \<times> string) list"
  ld_status :: string
  ld_current_clause_order :: int

text \<open>\<open>live_documents_seq\<close> is the sequence that gives the next inserted row its id.\<close>

record nda_db =
  doc_templates :: "DocTemplate list"
  template_clauses :: "TemplateClause list"
  live_documents :: "LiveDocument list"
  live_documents_seq :: int

record ClauseInfo =
  ci_id :: int
  ci_section_name :: string
  ci_order_num :: int
  ci_type :: string
  ci_system_prompt :: string
  ci_content_template :: "string option"
  ci_placeholders :: "(string \<times> bool \<times> string) list"

record DocumentInfo =
  di_id :: int
  di_template_id :: int
  di_template_name :: string
  di_current_clause :: ClauseInfo
  di_content :: "(string \<times> string) list"
  di_status :: string

definition get_template_by_id :: "nda_db \<Rightarrow> int \<Rightarrow> DocTemplate option" where
  "get_template_by_id db template_id = find (\<lambda>r. dt_id r = template_id) (doc_templates db)"

text \<open>
  \<open>ORDER BY order_num\<close>: the template's clauses, sorted by \<open>order_num\<close>; clauses with the
  same \<open>order_num\<close> stay in table order, one of the orders the query may give.
\<close>

definition get_clauses_by_template :: "nda_db \<Rightarrow> int \<Rightarrow> TemplateClause list" where
  "get_clauses_by_template db template_id =
     sort_key tc_order_num (filter (\<lambda>r. tc_doc_template_id r = template_id) (template_clauses db))"

definition get_live_document_by_id :: "nda_db \<Rightarrow> int \<Rightarrow> LiveDocument option" where
  "get_live_document_by_id db doc_id = find (\<lambda>r. ld_id r = doc_id) (live_documents db)"

definition create_live_document :: "nda_db \<Rightarrow> string \<Rightarrow> int \<Rightarrow> LiveDocument \<times> nda_db" where
  "create_live_document db user_id template_id =
     (let row = \<lparr>ld_id = live_documents_seq db, ld_user_id = user_id,
                 ld_doc_template_id = template_id, ld_content = [],
                 ld_status = ''in_progress'', ld_current_clause_order = 1\<rparr>
      in (row, db\<lparr>live_documents := live_documents db @ [row],
                  live_documents_seq := live_documents_seq db + 1\<rparr>))"

text \<open>
  The two updates return the updated row; when no row has the id, \<open>fetchrow\<close> gives
  \<open>None\<close> and reading the row raises.
\<close>

definition update_live_document_content ::
  "nda_db \<Rightarrow> int \<Rightarrow> (string \<times> string) list \<Rightarrow> int \<Rightarrow> (py_error + LiveDocument) \<times> nda_db" where
  "update_live_document_content db doc_id content current_clause_order =
     (case find (\<lambda>r. ld_id r = doc_id) (live_documents db) of
        None \<Rightarrow> (Inl TypeError, db)
      | Some row \<Rightarrow>
          (Inr (row\<lparr>ld_content := content, ld_current_clause_order := current_clause_order\<rparr>),
           db\<lparr>live_documents :=
                map (\<lambda>r. if ld_id r = doc_id
                          then r\<lparr>ld_content := content,
                                 ld_current_clause_order := current_clause_order\<rparr>
                          else r)
                    (live_documents db)\<rparr>))"

definition db_complete_document :: "nda_db \<Rightarrow> int \<Rightarrow> (py_error + LiveDocument) \<times> nda_db" where
  "db_complete_document db doc_id =
     (case find (\<lambda>r. ld_id r = doc_id) (live_documents db) of
        None \<Rightarrow> (Inl TypeError, db)
      | Some row \<Rightarrow>
          (Inr (row\<lparr>ld_status := ''completed''\<rparr>),
           db\<lparr>live_documents :=
                map (\<lambda>r. if ld_id r = doc_id then r\<lparr>ld_status := ''completed''\<rparr> else r)
                    (live_documents db)\<rparr>))"

definition clause_info :: "TemplateClause \<Rightarrow> ClauseInfo" where
  "clause_info c =
     \<lparr>ci_id = tc_id c, ci_section_name = tc_section_name c, ci_order_num = tc_order_num c,
      ci_type = tc_type c, ci_system_prompt = tc_system_prompt c,
      ci_content_template = tc_content_template c, ci_placeholders = tc_placeholders c\<rparr>"

definition start_document_creation ::
  "nda_db \<Rightarrow> string \<Rightarrow> int \<Rightarrow> (py_error + DocumentInfo) \<times> nda_db" where
  "start_document_creation db user_id template_id =
     (case get_template_by_id db template_id of
        None \<Rightarrow> (Inl (TemplateNotFound template_id), db)
      | Some template \<Rightarrow>
          let clauses = get_clauses_by_template db template_id
          in if clauses = [] then (Inl (TemplateWithoutClauses template_id), db)
             else
               let (live_doc, db') = create_live_document db user_id template_id;
                   first_clause = hd clauses
               in (Inr \<lparr>di_id = ld_id live_doc, di_template_id = dt_id template,
                        di_template_name = dt_name template,
                        di_current_clause = clause_info first_clause,
                        di_content = [], di_status = ld_status live_doc\<rparr>,
                   db'))"

definition process_clause_response ::
  "nda_db \<Rightarrow> int \<Rightarrow> int \<Rightarrow> string \<Rightarrow> string \<Rightarrow> (py_error + DocumentInfo) \<times> nda_db" where
  "process_clause_response db doc_id clause_id user_response filled_content =
     (case get_live_document_by_id db doc_id of
        None \<Rightarrow> (Inl (DocumentNotFound doc_id), db)
      | Some live_doc \<Rightarrow>
     (case get_template_by_id db (ld_doc_template_id live_doc) of
        None \<Rightarrow> (Inl (TemplateNotFound (ld_doc_template_id live_doc)), db)
      | Some template \<Rightarrow>
          let clauses = get_clauses_by_template db (dt_id template)
          in if clauses = [] then (Inl (TemplateWithoutClauses (dt_id template)), db)
             else
     (case find (\<lambda>c. tc_id c = clause_id) clauses of
        None \<Rightarrow> (Inl (ClauseNotFound clause_id), db)
      | Some current_clause \<Rightarrow>
          let content = AList.update (tc_section_name current_clause) filled_content
                          (ld_content live_doc);
              next_clause_order = tc_order_num current_clause + 1
          in
     (case find (\<lambda>c. tc_order_num c = next_clause_order) clauses of
        None \<Rightarrow>
          (case db_complete_document db doc_id of
             (Inl e, db') \<Rightarrow> (Inl e, db')
           | (Inr completed, db') \<Rightarrow>
               (case get_live_document_by_id db' doc_id of
                  None \<Rightarrow> (Inl AttributeError, db')
                | Some live_doc' \<Rightarrow>
                    (Inr \<lparr>di_id = ld_id live_doc', di_template_id = dt_id template,
                          di_template_name = dt_name template,
                          di_current_clause = clause_info current_clause,
                          di_content = content, di_status = ld_status live_doc'\<rparr>,
                     db')))
      | Some next_clause \<Rightarrow>
          (case update_live_document_content db doc_id content (tc_order_num next_clause) of
             (Inl e, db') \<Rightarrow> (Inl e, db')
           | (Inr live_doc', db') \<Rightarrow>
               (Inr \<lparr>di_id = ld_id live_doc', di_template_id = dt_id template,
                     di_template_name = dt_name template,
                     di_current_clause = clause_info next_clause,
                     di_content = content, di_status = ld_status live_doc'\<rparr>,
                db'))))))"

text \<open>The final document: a heading, then every clause whose section has content.\<close>

definition render_document :: "string \<Rightarrow> TemplateClause list \<Rightarrow> (string \<times> string) list \<Rightarrow> string" where
  "render_document name clauses content =
     ''# '' @ name @ nl @ nl @
     concat (map (\<lambda>clause. ''## '' @ tc_section_name clause @ nl @ nl @
                            the (map_of content (tc_section_name clause)) @ nl @ nl)
                 (filter (\<lambda>clause. tc_section_name clause \<in> fst ` set content) clauses))"

text \<open>The loop that raises at the first mandatory clause whose section has no content.\<close>

fun mandatory_check :: "TemplateClause list \<Rightarrow> (string \<times> string) list \<Rightarrow> py_error option" where
  "mandatory_check [] content = None"
| "mandatory_check (clause # rest) content =
     (if tc_section_name clause \<notin> fst ` set content
      then Some (MandatoryClauseNotFilled (tc_section_name clause))
      else mandatory_check rest content)"

definition complete_document :: "nda_db \<Rightarrow> int \<Rightarrow> (py_error + string) \<times> nda_db" where
  "complete_document db doc_id =
     (case get_live_document_by_id db doc_id of
        None \<Rightarrow> (Inl (DocumentNotFound doc_id), db)
      | Some live_doc \<Rightarrow>
     (case get_template_by_id db (ld_doc_template_id live_doc) of
        None \<Rightarrow> (Inl (TemplateNotFound (ld_doc_template_id live_doc)), db)
      | Some template \<Rightarrow>
          let clauses = get_clauses_by_template db (dt_id template)
          in if clauses = [] then (Inl (TemplateWithoutClauses (dt_id template)), db)
             else
               let content = ld_content live_doc;
                   mandatory_clauses = filter (\<lambda>c. tc_type c = ''mandatory'') clauses
               in case mandatory_check mandatory_clauses content of
                    Some e \<Rightarrow> (Inl e, db)
                  | None \<Rightarrow>
                      (case db_complete_document db doc_id of
                         (Inl e, db') \<Rightarrow> (Inl e, db')
                       | (Inr completed, db') \<Rightarrow>
                           (Inr (render_document (dt_name template) clauses content), db'))))"

section \<open>Filling a clause (document\_creation\_workflow.py)\<close>

text \<open>
  \<open>_validate_and_fill_clause\<close>: with a content template, every placeholder name in turn
  has its slot \<open>{name}\<close> replaced by the user's response; without one, the response itself
  is the content.
\<close>

definition fill_placeholder :: "string \<Rightarrow> string \<Rightarrow> string \<Rightarrow> string" where
  "fill_placeholder user_response filled_content field_name =
     (let placeholder = ''{'' @ field_name @ ''}''
      in if str_in placeholder filled_content
         then replace placeholder user_response filled_content
         else filled_content)"

definition validate_and_fill_clause :: "ClauseInfo \<Rightarrow> string \<Rightarrow> string" where
  "validate_and_fill_clause clause user_response =
     (case ci_content_template clause of
        None \<Rightarrow> user_response
      | Some template \<Rightarrow>
          if template = [] then user_response
          else if ci_placeholders clause \<noteq> []
          then foldl (fill_placeholder user_response) template (map fst (ci_placeholders clause))
          else template)"

text \<open>
  \<open>_process_document_response\<close>, from the document information of the session to the
  call of the tool: the clause is filled, an empty content is refused, and the tool is
  called on the current clause with the filled content. \<open>None\<close> stands for the two
  refusals, which call no tool.
\<close>

definition process_document_response ::
  "nda_db \<Rightarrow> DocumentInfo option \<Rightarrow> string \<Rightarrow> ((py_error + DocumentInfo) \<times> nda_db) option" where
  "process_document_response db document_info user_response =
     (case document_info of
        None \<Rightarrow> None
      | Some doc_info \<Rightarrow>
          let current_clause = di_current_clause doc_info;
              filled_content = validate_and_fill_clause current_clause user_response
          in if filled_content = [] then None
             else Some (process_clause_response db (di_id doc_info) (ci_id current_clause)
                          user_response filled_content))"

section \<open>The spec's notions and example inputs\<close>

definition no_regex :: regex_search where
  "no_regex pattern response = Inl RegexError"

definition short_circuit_clause :: Clause where
  "short_circuit_clause =
     \<lparr>c_id = 2, c_doc_template_id = 1, c_order_num = 2, c_section_name = ''NonCompete'',
      c_type = OPTIONAL, c_type_alternatives = [],
      c_alert_conditions =
        [(''length'', \<lparr>cd_type = Some ''min_length'', cd_value = Some (Single (AInt 10)),
                       cd_message = Some ''Too short''\<rparr>),
         (''words'', \<lparr>cd_type = Some ''contains_forbidden_words'',
                      cd_value = Some (Many [AStr ''x'']), cd_message = Some ''Forbidden''\<rparr>)],
      c_suggestions = [], c_system_prompt = ''Describe the restriction''\<rparr>"

definition parties_clause :: Clause where
  "parties_clause =
     \<lparr>c_id = 1, c_doc_template_id = 1, c_order_num = 1, c_section_name = ''Parties'',
      c_type = MANDATORY, c_type_alternatives = [], c_alert_conditions = [],
      c_suggestions = [], c_system_prompt = ''Name the parties''\<rparr>"

definition agent_session :: agent where
  "agent_session =
     \<lparr>current_document_id = Some 1, current_template_id = Some 1,
      current_clauses = [parties_clause, short_circuit_clause],
      current_clause_index = 1,
      self_db = \<lparr>crud_doc_templates = [\<lparr>dtm_id = 1, dtm_name = ''NDA-A''\<rparr>],
                 crud_documents_agents =
                   [\<lparr>da_id = 1, da_doc_template_id = 1,
                     da_content = [(''Parties'', ''Acme Inc.'')],
                     da_status = ''in_progress'', da_current_clause_order = 1\<rparr>]\<rparr>\<rparr>"

text \<open>
  The mandatory clauses whose section is not a key of the content, in the order of the
  clause list: the spec's set of missing mandatory clauses, for each of the two stores.
\<close>

definition spec_missing :: "TemplateClause list \<Rightarrow> (string \<times> string) list \<Rightarrow> TemplateClause list" where
  "spec_missing clauses content =
     filter (\<lambda>c. tc_type c = ''mandatory'' \<and> tc_section_name c \<notin> fst ` set content) clauses"

definition spec_missing_agent :: "Clause list \<Rightarrow> (string \<times> string) list \<Rightarrow> Clause list" where
  "spec_missing_agent clauses content =
     filter (\<lambda>c. c_type c = MANDATORY \<and> c_section_name c \<notin> fst ` set content) clauses"

definition mk_clause :: "int \<Rightarrow> int \<Rightarrow> string \<Rightarrow> string \<Rightarrow> TemplateClause" where
  "mk_clause i order_num name type =
     \<lparr>tc_id = i, tc_doc_template_id = 1, tc_section_name = name, tc_order_num = order_num,
      tc_type = type, tc_system_prompt = ''Fill in '' @ name,
      tc_content_template = None, tc_placeholders = []\<rparr>"

definition mk_document :: "string \<Rightarrow> (string \<times> string) list \<Rightarrow> int \<Rightarrow> LiveDocument" where
  "mk_document status content current_clause_order =
     \<lparr>ld_id = 1, ld_user_id = ''user'', ld_doc_template_id = 1, ld_content = content,
      ld_status = status, ld_current_clause_order = current_clause_order\<rparr>"

definition nda_store :: "TemplateClause list \<Rightarrow> LiveDocument list \<Rightarrow> nda_db" where
  "nda_store clauses documents =
     \<lparr>doc_templates = [\<lparr>dt_id = 1, dt_agent_id = ''nilo'', dt_name = ''NDA-A'',
                        dt_description = ''Non-disclosure agreement'', dt_active = True\<rparr>],
      template_clauses = clauses,
      live_documents = documents,
      live_documents_seq = 2\<rparr>"

definition two_mandatory :: "TemplateClause list" where
  "two_mandatory = [mk_clause 10 1 ''Parties'' ''mandatory'', mk_clause 11 2 ''Term'' ''mandatory'']"

definition agent_missing_session :: agent where
  "agent_missing_session =
     agent_session\<lparr>current_clauses :=
       [parties_clause\<lparr>c_section_name := ''Scope'', c_order_num := 1\<rparr>,
        parties_clause\<lparr>c_section_name := ''Term'', c_order_num := 3\<rparr>,
        short_circuit_clause\<lparr>c_order_num := 4\<rparr>]\<rparr>"

text \<open>The spec's first position of the cursor and its next position.\<close>

definition spec_first_order :: "TemplateClause list \<Rightarrow> int" where
  "spec_first_order clauses = Min (tc_order_num ` set clauses)"

definition spec_next_order :: "TemplateClause list \<Rightarrow> int \<Rightarrow> int option" where
  "spec_next_order clauses current =
     (let greater = filter (\<lambda>n. n > current) (map tc_order_num clauses)
      in if greater = [] then None else Some (Min (set greater)))"

definition late_clauses :: "TemplateClause list" where
  "late_clauses = [mk_clause 10 2 ''Parties'' ''mandatory'', mk_clause 11 3 ''Term'' ''optional'']"

definition gap_clauses :: "TemplateClause list" where
  "gap_clauses = [mk_clause 10 1 ''Parties'' ''mandatory'', mk_clause 11 3 ''Term'' ''mandatory'']"

definition term_template_clause :: TemplateClause where
  "term_template_clause =
     (mk_clause 10 1 ''Term'' ''mandatory'')
       \<lparr>tc_content_template := Some ''Valid for {years} years.'',
        tc_placeholders := [(''years'', True, ''duration in years'')]\<rparr>"

definition template_clauses_example :: "TemplateClause list" where
  "template_clauses_example = [term_template_clause, mk_clause 11 2 ''Law'' ''optional'']"

definition term_doc_info :: DocumentInfo where
  "term_doc_info =
     \<lparr>di_id = 1, di_template_id = 1, di_template_name = ''NDA-A'',
      di_current_clause = clause_info term_template_clause,
      di_content = [], di_status = ''in_progress''\<rparr>"

fun fill_in_order :: "string \<Rightarrow> string list \<Rightarrow> string \<Rightarrow> string" where
  "fill_in_order answer [] filled = filled"
| "fill_in_order answer (name # names) filled =
     fill_in_order answer names (replace (''{'' @ name @ ''}'') answer filled)"

definition two_slot_clause :: ClauseInfo where
  "two_slot_clause =
     (clause_info (mk_clause 12 3 ''Scope'' ''optional''))
       \<lparr>ci_content_template := Some ''{a}{b}'',
        ci_placeholders := [(''a'', True, ''first''), (''b'', False, ''second'')]\<rparr>"

section \<open>Validation\<close>

lemma str_in_sublist: "str_in w s = sublist w s"
  by (induction s) (auto simp: sublist_Cons_right)

lemma forbidden_words_loop_invalid:
  "forbidden_words_loop m s ws = Inr (Some r) \<Longrightarrow> \<not> valid r"
  by (induction m s ws rule: forbidden_words_loop.induct) (auto split: if_splits)

lemma required_terms_loop_invalid:
  "required_terms_loop m s ts = Inr (Some r) \<Longrightarrow> \<not> valid r"
  by (induction m s ts rule: required_terms_loop.induct) (auto split: if_splits)

lemma check_condition_invalid:
  "check_condition rs response name cond = Inr (Some r) \<Longrightarrow> \<not> valid r"
  by (auto simp: check_condition_def Let_def
        dest: forbidden_words_loop_invalid required_terms_loop_invalid
        split: if_splits cond_value.splits atom.splits sum.splits)

lemma alert_conditions_loop_first_failure:
  assumes "\<forall>(n, c) \<in> set passed. check_condition rs response n c = Inr None"
    and "check_condition rs response name cond = Inr (Some r)"
  shows "alert_conditions_loop rs response (passed @ (name, cond) # later) = Inr r"
  using assms by (induction passed) auto

lemma str_int_10: "str_int 10 = ''10''"
  by code_simp

lemma min_length_example:
  "check_condition rs ''x'' n \<lparr>cd_type = Some ''min_length'', cd_value = Some (Single (AInt 10)),
                       cd_message = Some m\<rparr>
   = Inr (Some \<lparr>valid = False, message = m @ nl @ nl @ ''Minimum length required: 10 characters''\<rparr>)"
  by (simp add: check_condition_def strip_def isspace_def str_int_10)

text \<open>
  C10. Validation goes through the alert conditions in their order and returns at the first
  one that fails, with that condition's result only: whatever conditions come later, they
  play no part. A clause without alert conditions is valid. For a minimum length of 10
  followed by the forbidden word "x", the answer "x" gets the minimum-length message.
\<close>

theorem validate_response_short_circuit:
  "(c_alert_conditions clause = [] \<longrightarrow>
      validate_response rs response clause = Inr \<lparr>valid = True, message = []\<rparr>)
   \<and> (c_alert_conditions clause = passed @ (name, cond) # later
      \<and> (\<forall>(n, c) \<in> set passed. check_condition rs response n c = Inr None)
      \<and> check_condition rs response name cond = Inr (Some r)
      \<longrightarrow> validate_response rs response clause = Inr r \<and> \<not> valid r)
   \<and> (c_alert_conditions clause =
        [(n1, \<lparr>cd_type = Some ''min_length'', cd_value = Some (Single (AInt 10)),
               cd_message = Some m1\<rparr>),
         (n2, \<lparr>cd_type = Some ''contains_forbidden_words'', cd_value = Some (Many [AStr ''x'']),
               cd_message = Some m2\<rparr>)]
      \<longrightarrow> validate_response rs ''x'' clause =
            Inr \<lparr>valid = False,
                 message = m1 @ nl @ nl @ ''Minimum length required: 10 characters''\<rparr>)"
proof (intro conjI impI)
  assume "c_alert_conditions clause = []"
  then show "validate_response rs response clause = Inr \<lparr>valid = True, message = []\<rparr>"
    by (simp add: validate_response_def)
next
  assume h: "c_alert_conditions clause = passed @ (name, cond) # later
      \<and> (\<forall>(n, c) \<in> set passed. check_condition rs response n c = Inr None)
      \<and> check_condition rs response name cond = Inr (Some r)"
  then show "validate_response rs response clause = Inr r"
    by (simp add: validate_response_def alert_conditions_loop_first_failure)
  from h show "\<not> valid r" by (blast dest: check_condition_invalid)
next
  assume "c_alert_conditions clause =
        [(n1, \<lparr>cd_type = Some ''min_length'', cd_value = Some (Single (AInt 10)),
               cd_message = Some m1\<rparr>),
         (n2, \<lparr>cd_type = Some ''contains_forbidden_words'', cd_value = Some (Many [AStr ''x'']),
               cd_message = Some m2\<rparr>)]"
  then show "validate_response rs ''x'' clause =
            Inr \<lparr>valid = False,
                 message = m1 @ nl @ nl @ ''Minimum length required: 10 characters''\<rparr>"
    by (simp add: validate_response_def min_length_example)
qed

theorem validate_response_short_circuit_witness:
  "c_alert_conditions short_circuit_clause \<noteq> []
   \<and> check_condition no_regex ''x'' ''length'' (snd (hd (c_alert_conditions short_circuit_clause)))
       = Inr (Some \<lparr>valid = False,
                message = ''Too short'' @ nl @ nl @ ''Minimum length required: 10 characters''\<rparr>)
   \<and> validate_response no_regex ''x'' short_circuit_clause =
       Inr \<lparr>valid = False,
            message = ''Too short'' @ nl @ nl @ ''Minimum length required: 10 characters''\<rparr>
   \<and> validate_response no_regex ''x'' parties_clause = Inr \<lparr>valid = True, message = []\<rparr>"
proof -
  let ?r = "\<lparr>valid = False,
             message = ''Too short'' @ nl @ nl @ ''Minimum length required: 10 characters''\<rparr>"
  let ?cond = "snd (hd (c_alert_conditions short_circuit_clause))"
  let ?later = "tl (c_alert_conditions short_circuit_clause)"
  note T = validate_response_short_circuit
  have c: "check_condition no_regex ''x'' ''length'' ?cond = Inr (Some ?r)"
    by (simp add: short_circuit_clause_def min_length_example)
  have h2: "c_alert_conditions short_circuit_clause = [] @ (''length'', ?cond) # ?later
      \<and> (\<forall>(n, c) \<in> set []. check_condition no_regex ''x'' n c = Inr None)
      \<and> check_condition no_regex ''x'' ''length'' ?cond = Inr (Some ?r)"
    using c by (simp add: short_circuit_clause_def)
  have v: "validate_response no_regex ''x'' short_circuit_clause = Inr ?r \<and> \<not> valid ?r"
    by (rule T [THEN conjunct2, THEN conjunct1, THEN mp, OF h2])
  have h3: "c_alert_conditions short_circuit_clause =
        [(''length'', \<lparr>cd_type = Some ''min_length'', cd_value = Some (Single (AInt 10)),
               cd_message = Some ''Too short''\<rparr>),
         (''words'', \<lparr>cd_type = Some ''contains_forbidden_words'',
               cd_value = Some (Many [AStr ''x'']), cd_message = Some ''Forbidden''\<rparr>)]"
    by (simp add: short_circuit_clause_def)
  have v3: "validate_response no_regex ''x'' short_circuit_clause = Inr ?r"
    by (rule T [THEN conjunct2, THEN conjunct2, THEN mp, OF h3])
  have h1: "c_alert_conditions parties_clause = []"
    by (simp add: parties_clause_def)
  have v1: "validate_response no_regex ''x'' parties_clause = Inr \<lparr>valid = True, message = []\<rparr>"
    by (rule T [THEN conjunct1, THEN mp, OF h1])
  have ne: "c_alert_conditions short_circuit_clause \<noteq> []"
    by (simp add: short_circuit_clause_def)
  from ne c v3 v1 show ?thesis by blast
qed

section \<open>The agent's answer processing\<close>

text \<open>
  C9. In an active session, an answer that passes the alert conditions before some
  condition and fails that one is answered by the validation alert, which carries that
  condition's message together with the clause's name and prompt. The agent and its store
  are returned as they were: the content has no new key, the clause index and the stored
  \<open>current_clause_order\<close> are the same, and the same clause is asked again.
\<close>

theorem rejected_answer_keeps_state:
  assumes "\<not> no_document_id self"
    and "current_clause_index self < length (current_clauses self)"
    and "c_alert_conditions (current_clauses self ! current_clause_index self)
           = passed @ (name, cond) # later"
    and "\<forall>(n, c) \<in> set passed. check_condition rs user_response n c = Inr None"
    and "check_condition rs user_response name cond = Inr (Some r)"
  shows "agent_process_clause_response rs self user_response =
           (ValidationAlert (message r)
              (c_section_name (current_clauses self ! current_clause_index self))
              (c_system_prompt (current_clauses self ! current_clause_index self)),
            self)"
proof -
  have "validate_response rs user_response (current_clauses self ! current_clause_index self) = Inr r"
    using assms(3-5) by (simp add: validate_response_def alert_conditions_loop_first_failure)
  moreover have "\<not> valid r"
    using assms(5) by (rule check_condition_invalid)
  ultimately show ?thesis
    using assms(1,2) by (simp add: agent_process_clause_response_def Let_def)
qed

theorem rejected_answer_keeps_state_witness:
  "agent_process_clause_response no_regex agent_session ''short''
     = (ValidationAlert (''Too short'' @ nl @ nl @ ''Minimum length required: 10 characters'')
          ''NonCompete'' ''Describe the restriction'', agent_session)
   \<and> da_content (hd (crud_documents_agents (self_db agent_session))) = [(''Parties'', ''Acme Inc.'')]
   \<and> current_clause_index agent_session = 1"
proof -
  let ?cond = "\<lparr>cd_type = Some ''min_length'', cd_value = Some (Single (AInt 10)),
                 cd_message = Some ''Too short''\<rparr>"
  let ?r = "\<lparr>valid = False,
             message = ''Too short'' @ nl @ nl @ ''Minimum length required: 10 characters''\<rparr>"
  have 1: "\<not> no_document_id agent_session"
    by (simp add: no_document_id_def agent_session_def)
  have 2: "current_clause_index agent_session < length (current_clauses agent_session)"
    by (simp add: agent_session_def)
  have 3: "c_alert_conditions (current_clauses agent_session ! current_clause_index agent_session)
             = [] @ (''length'', ?cond) # tl (c_alert_conditions short_circuit_clause)"
    by (simp add: agent_session_def short_circuit_clause_def)
  have 4: "\<forall>(n, c) \<in> set []. check_condition no_regex ''short'' n c = Inr None"
    by simp
  have 5: "check_condition no_regex ''short'' ''length'' ?cond = Inr (Some ?r)"
    by (simp add: check_condition_def strip_def isspace_def str_int_10)
  show ?thesis
    using rejected_answer_keeps_state [OF 1 2 3 4 5]
    by (simp add: agent_session_def short_circuit_clause_def)
qed

section \<open>Store lemmas\<close>

lemma find_map_update:
  assumes "\<And>r. key (f r) = key r"
  shows "find (\<lambda>r. key r = k) (map (\<lambda>r. if key r = k then f r else r) rows)
         = map_option f (find (\<lambda>r. key r = k) rows)"
  using assms by (induction rows) auto

lemma db_complete_document_found:
  assumes "get_live_document_by_id db doc_id = Some live_doc"
  shows "\<exists>db'. db_complete_document db doc_id = (Inr (live_doc\<lparr>ld_status := ''completed''\<rparr>), db')
           \<and> get_live_document_by_id db' doc_id = Some (live_doc\<lparr>ld_status := ''completed''\<rparr>)
           \<and> doc_templates db' = doc_templates db
           \<and> template_clauses db' = template_clauses db"
  using assms
  by (simp add: db_complete_document_def get_live_document_by_id_def
        find_map_update [where key = ld_id and f = "\<lambda>r. r\<lparr>ld_status := ''completed''\<rparr>"])

lemma update_live_document_content_found:
  assumes "get_live_document_by_id db doc_id = Some live_doc"
  shows "\<exists>db'. update_live_document_content db doc_id content n
             = (Inr (live_doc\<lparr>ld_content := content, ld_current_clause_order := n\<rparr>), db')
           \<and> get_live_document_by_id db' doc_id
               = Some (live_doc\<lparr>ld_content := content, ld_current_clause_order := n\<rparr>)
           \<and> doc_templates db' = doc_templates db
           \<and> template_clauses db' = template_clauses db"
  using assms
  by (simp add: update_live_document_content_def get_live_document_by_id_def
        find_map_update [where key = ld_id
          and f = "\<lambda>r. r\<lparr>ld_content := content, ld_current_clause_order := n\<rparr>"])

lemma sorted_get_clauses_by_template:
  "sorted (map tc_order_num (get_clauses_by_template db template_id))"
  by (simp add: get_clauses_by_template_def)

lemma mandatory_check_spec_missing:
  "mandatory_check (filter (\<lambda>c. tc_type c = ''mandatory'') clauses) content
   = (case spec_missing clauses content of
        [] \<Rightarrow> None
      | c # rest \<Rightarrow> Some (MandatoryClauseNotFilled (tc_section_name c)))"
  by (induction clauses) (auto simp: spec_missing_def)

lemma filter_length_less:
  "length (filter P xs) < length xs \<longleftrightarrow> filter (\<lambda>x. \<not> P x) xs \<noteq> []"
  by (induction xs) (auto simp: less_Suc_eq_le)

section \<open>Finalizing a document\<close>

lemma agent_missing_filter:
  "filter (\<lambda>c. c_section_name c \<notin> fst ` set content) (filter (\<lambda>c. c_type c = MANDATORY) clauses)
   = spec_missing_agent clauses content"
  by (simp add: spec_missing_agent_def conj_commute)

lemma complete_document_agent_found:
  assumes "get_document_agent db doc_id = Some doc_agent"
  shows "\<exists>db'. complete_document_agent db doc_id = Inr (doc_agent\<lparr>da_status := ''completed''\<rparr>, db')
           \<and> get_document_agent db' doc_id = Some (doc_agent\<lparr>da_status := ''completed''\<rparr>)"
  using assms
  by (simp add: complete_document_agent_def get_document_agent_def
        find_map_update [where key = da_id and f = "\<lambda>r. r\<lparr>da_status := ''completed''\<rparr>"])

lemma complete_document_missing:
  assumes "get_live_document_by_id db doc_id = Some live_doc"
    and "get_template_by_id db (ld_doc_template_id live_doc) = Some template"
    and "get_clauses_by_template db (dt_id template) \<noteq> []"
    and "spec_missing (get_clauses_by_template db (dt_id template)) (ld_content live_doc) = c # rest"
  shows "complete_document db doc_id = (Inl (MandatoryClauseNotFilled (tc_section_name c)), db)"
  using assms by (simp add: complete_document_def Let_def mandatory_check_spec_missing)

lemma complete_document_none_missing:
  assumes "get_live_document_by_id db doc_id = Some live_doc"
    and "get_template_by_id db (ld_doc_template_id live_doc) = Some template"
    and "get_clauses_by_template db (dt_id template) \<noteq> []"
    and "spec_missing (get_clauses_by_template db (dt_id template)) (ld_content live_doc) = []"
  shows "\<exists>db'. complete_document db doc_id
             = (Inr (render_document (dt_name template)
                       (get_clauses_by_template db (dt_id template)) (ld_content live_doc)), db')
           \<and> get_live_document_by_id db' doc_id = Some (live_doc\<lparr>ld_status := ''completed''\<rparr>)"
proof -
  obtain db' where "db_complete_document db doc_id = (Inr (live_doc\<lparr>ld_status := ''completed''\<rparr>), db')"
    and "get_live_document_by_id db' doc_id = Some (live_doc\<lparr>ld_status := ''completed''\<rparr>)"
    using db_complete_document_found [OF assms(1)] by blast
  then show ?thesis
    using assms by (simp add: complete_document_def Let_def mandatory_check_spec_missing)
qed

lemma complete_nda_document_missing:
  assumes "\<not> no_document_id self"
    and "get_document_agent (self_db self) (the (current_document_id self)) = Some doc_agent"
    and "spec_missing_agent (current_clauses self) (da_content doc_agent) \<noteq> []"
  shows "complete_nda_document self
         = (CannotCompleteDocument
              (map c_section_name (spec_missing_agent (current_clauses self) (da_content doc_agent))),
            self)"
proof -
  have "length (filter (\<lambda>c. c_section_name c \<in> fst ` set (da_content doc_agent))
                  (filter (\<lambda>c. c_type c = MANDATORY) (current_clauses self)))
        < length (filter (\<lambda>c. c_type c = MANDATORY) (current_clauses self))"
    using assms(3) by (simp only: filter_length_less agent_missing_filter not_False_eq_True)
  then show ?thesis
    using assms(1,2)
    by (simp add: complete_nda_document_def Let_def agent_missing_filter del: filter_filter)
qed

lemma complete_nda_document_none_missing:
  assumes "\<not> no_document_id self"
    and "get_document_agent (self_db self) (the (current_document_id self)) = Some doc_agent"
    and "spec_missing_agent (current_clauses self) (da_content doc_agent) = []"
  shows "\<exists>reply self'. complete_nda_document self = (reply, self')
           \<and> (\<forall>names. reply \<noteq> CannotCompleteDocument names)
           \<and> get_document_agent (self_db self') (the (current_document_id self))
               = Some (doc_agent\<lparr>da_status := ''completed''\<rparr>)"
proof -
  have n: "\<not> length (filter (\<lambda>c. c_section_name c \<in> fst ` set (da_content doc_agent))
                  (filter (\<lambda>c. c_type c = MANDATORY) (current_clauses self)))
        < length (filter (\<lambda>c. c_type c = MANDATORY) (current_clauses self))"
    using assms(3) by (simp only: filter_length_less agent_missing_filter not_not)
  obtain db' where c: "complete_document_agent (self_db self) (the (current_document_id self))
                      = Inr (doc_agent\<lparr>da_status := ''completed''\<rparr>, db')"
    and g: "get_document_agent db' (the (current_document_id self))
              = Some (doc_agent\<lparr>da_status := ''completed''\<rparr>)"
    using complete_document_agent_found [OF assms(2)] by blast
  show ?thesis
    using assms(1,2) n c g
    by (cases "get_doc_template db' (current_template_id self)")
       (simp_all add: complete_nda_document_def Let_def del: filter_filter)
qed

lemma spec_missing_empty:
  "spec_missing clauses content = []
   \<longleftrightarrow> (\<forall>c \<in> set clauses. tc_type c = ''mandatory'' \<longrightarrow> tc_section_name c \<in> fst ` set content)"
  by (auto simp: spec_missing_def filter_empty_conv)

lemma spec_missing_agent_empty:
  "spec_missing_agent clauses content = []
   \<longleftrightarrow> (\<forall>c \<in> set clauses. c_type c = MANDATORY \<longrightarrow> c_section_name c \<in> fst ` set content)"
  by (auto simp: spec_missing_agent_def filter_empty_conv)


section \<open>Example stores\<close>

lemma mk_document_sel [simp]:
  "ld_id (mk_document status content n) = 1"
  "ld_doc_template_id (mk_document status content n) = 1"
  "ld_content (mk_document status content n) = content"
  "ld_status (mk_document status content n) = status"
  "ld_current_clause_order (mk_document status content n) = n"
  by (simp_all add: mk_document_def)

lemma mk_clause_sel [simp]:
  "tc_id (mk_clause i order_num name type) = i"
  "tc_doc_template_id (mk_clause i order_num name type) = 1"
  "tc_section_name (mk_clause i order_num name type) = name"
  "tc_order_num (mk_clause i order_num name type) = order_num"
  "tc_type (mk_clause i order_num name type) = type"
  "tc_content_template (mk_clause i order_num name type) = None"
  "tc_placeholders (mk_clause i order_num name type) = []"
  by (simp_all add: mk_clause_def)

lemma two_mandatory_clauses:
  "get_clauses_by_template (nda_store two_mandatory documents) 1 = two_mandatory"
  by (simp add: get_clauses_by_template_def nda_store_def two_mandatory_def)

lemma nda_store_template:
  "get_template_by_id (nda_store clauses documents) 1
   = Some \<lparr>dt_id = 1, dt_agent_id = ''nilo'', dt_name = ''NDA-A'',
           dt_description = ''Non-disclosure agreement'', dt_active = True\<rparr>"
  by (simp add: get_template_by_id_def nda_store_def)

lemma nda_store_document:
  "get_live_document_by_id (nda_store clauses [mk_document status content n]) 1
   = Some (mk_document status content n)"
  by (simp add: get_live_document_by_id_def nda_store_def)

lemma two_mandatory_not_empty: "two_mandatory \<noteq> []"
  by (simp add: two_mandatory_def)

section \<open>Finalizing: examples\<close>



section \<open>Skipping an optional clause\<close>

text \<open>
  C8, as the code has it. With a current clause, \<open>skip_optional_clause\<close> refuses a
  mandatory clause, then refuses a section name that is not the current clause's, and
  otherwise reports the skip; in all three cases the agent and its store are returned as
  they were, so the skip itself moves no cursor. The cursor moves by the separate tool
  \<open>proceed_to_next_clause\<close>, which adds one to the clause index and changes nothing else,
  content included; an accepted or rejected answer does not move the index either.
\<close>

theorem skip_optional_clause_keeps_state:
  assumes "current_clause_index self < length (current_clauses self)"
    and "current_clause = current_clauses self ! current_clause_index self"
  shows "(c_type current_clause = MANDATORY \<longrightarrow>
            skip_optional_clause self section_name
            = (CannotSkipMandatory (c_section_name current_clause), self))
       \<and> (c_type current_clause = OPTIONAL \<and> c_section_name current_clause \<noteq> section_name \<longrightarrow>
            skip_optional_clause self section_name
            = (SectionNameMismatch (c_section_name current_clause), self))
       \<and> (c_type current_clause = OPTIONAL \<and> c_section_name current_clause = section_name \<longrightarrow>
            skip_optional_clause self section_name = (OptionalClauseSkipped section_name, self))
       \<and> snd (proceed_to_next_clause self)
           = self\<lparr>current_clause_index := current_clause_index self + 1\<rparr>
       \<and> current_clause_index (snd (agent_process_clause_response rs self user_response))
           = current_clause_index self"
proof -
  have "current_clause_index (snd (agent_process_clause_response rs self user_response))
        = current_clause_index self"
    by (simp add: agent_process_clause_response_def Let_def split: sum.splits prod.splits)
  moreover have "snd (proceed_to_next_clause self)
           = self\<lparr>current_clause_index := current_clause_index self + 1\<rparr>"
    by (simp add: proceed_to_next_clause_def Let_def)
  ultimately show ?thesis
    using assms by (simp add: skip_optional_clause_def Let_def)
qed

theorem skip_optional_clause_keeps_state_witness:
  "skip_optional_clause agent_session ''NonCompete''
     = (OptionalClauseSkipped ''NonCompete'', agent_session)
   \<and> skip_optional_clause agent_session ''Parties''
     = (SectionNameMismatch ''NonCompete'', agent_session)
   \<and> current_clause_index (snd (proceed_to_next_clause agent_session)) = 2"
proof -
  have 1: "current_clause_index agent_session < length (current_clauses agent_session)"
    by (simp add: agent_session_def)
  have 2: "short_circuit_clause = current_clauses agent_session ! current_clause_index agent_session"
    by (simp add: agent_session_def)
  have t: "c_type short_circuit_clause = OPTIONAL"
    and n: "c_section_name short_circuit_clause = ''NonCompete''"
    by (simp_all add: short_circuit_clause_def)
  have i: "current_clause_index agent_session = 1"
    by (simp add: agent_session_def)
  show ?thesis
    using skip_optional_clause_keeps_state [OF 1 2, of "''NonCompete''" no_regex "[]"]
          skip_optional_clause_keeps_state [OF 1 2, of "''Parties''" no_regex "[]"]
    by (simp add: t n i)
qed

text \<open>
  C8 as stated fails: a successful skip does not advance the cursor. After the optional
  clause at index 1 is skipped, the agent is the same, its index still 1.
\<close>

theorem skip_does_not_advance:
  "snd (skip_optional_clause agent_session ''NonCompete'') = agent_session
   \<and> current_clause_index (snd (skip_optional_clause agent_session ''NonCompete'')) = 1
   \<and> c_type (current_clauses agent_session ! current_clause_index agent_session) = OPTIONAL
   \<and> c_section_name (current_clauses agent_session ! current_clause_index agent_session)
       = ''NonCompete''"
  by (simp add: skip_optional_clause_def agent_session_def short_circuit_clause_def)

section \<open>Starting a document\<close>

lemma hd_sort_key_Min:
  assumes "xs \<noteq> []"
  shows "f (hd (sort_key f xs)) = Min (f ` set xs)"
proof -
  let ?ys = "sort_key f xs"
  have ne: "?ys \<noteq> []" using assms by (metis length_0_conv length_sort)
  have s: "sorted (map f ?ys)" by simp
  have "f (hd ?ys) \<in> f ` set xs"
    using ne by (metis hd_in_set imageI set_sort)
  moreover have "\<forall>y \<in> f ` set xs. f (hd ?ys) \<le> y"
  proof
    fix y assume "y \<in> f ` set xs"
    then obtain x where x: "x \<in> set ?ys" "y = f x" by auto
    obtain z zs where z: "?ys = z # zs" using ne by (cases ?ys) auto
    with s x show "f (hd ?ys) \<le> y" by auto
  qed
  ultimately show ?thesis
    by (intro Min_eqI [symmetric]) auto
qed

lemma first_clause_order:
  assumes "get_clauses_by_template db template_id \<noteq> []"
  shows "tc_order_num (hd (get_clauses_by_template db template_id))
         = spec_first_order (get_clauses_by_template db template_id)"
proof -
  let ?rows = "filter (\<lambda>r. tc_doc_template_id r = template_id) (template_clauses db)"
  have "?rows \<noteq> []"
    using assms by (auto simp: get_clauses_by_template_def)
  then have "tc_order_num (hd (sort_key tc_order_num ?rows)) = Min (tc_order_num ` set ?rows)"
    by (rule hd_sort_key_Min)
  then show ?thesis
    by (simp add: get_clauses_by_template_def spec_first_order_def)
qed


lemma late_clauses_sorted:
  "get_clauses_by_template (nda_store late_clauses documents) 1 = late_clauses"
  by (simp add: get_clauses_by_template_def nda_store_def late_clauses_def)

text \<open>
  C7, as the code has it. \<open>start_document_creation\<close> fails, creating nothing, when the
  template is unknown or has no clauses. Otherwise it adds one document to the store, in
  progress, with empty content and \<open>current_clause_order\<close> 1, and returns the first clause
  of the template in \<open>order_num\<close> order, whose \<open>order_num\<close> is the smallest of the template.
\<close>

theorem start_document_creation_result:
  "(get_template_by_id db template_id = None \<longrightarrow>
      start_document_creation db user_id template_id = (Inl (TemplateNotFound template_id), db))
   \<and> (get_template_by_id db template_id = Some template
        \<and> get_clauses_by_template db template_id = [] \<longrightarrow>
      start_document_creation db user_id template_id
      = (Inl (TemplateWithoutClauses template_id), db))
   \<and> (get_template_by_id db template_id = Some template
        \<and> clauses = get_clauses_by_template db template_id \<and> clauses \<noteq> [] \<longrightarrow>
      (\<exists>info db' live_doc.
          start_document_creation db user_id template_id = (Inr info, db')
          \<and> live_documents db' = live_documents db @ [live_doc]
          \<and> ld_id live_doc = di_id info
          \<and> ld_user_id live_doc = user_id
          \<and> ld_doc_template_id live_doc = template_id
          \<and> ld_status live_doc = ''in_progress''
          \<and> ld_content live_doc = []
          \<and> ld_current_clause_order live_doc = 1
          \<and> di_status info = ''in_progress''
          \<and> di_content info = []
          \<and> di_current_clause info = clause_info (hd clauses)
          \<and> ci_order_num (di_current_clause info) = spec_first_order clauses))"
proof (intro conjI impI)
  assume "get_template_by_id db template_id = None"
  then show "start_document_creation db user_id template_id
             = (Inl (TemplateNotFound template_id), db)"
    by (simp add: start_document_creation_def)
next
  assume "get_template_by_id db template_id = Some template
        \<and> get_clauses_by_template db template_id = []"
  then show "start_document_creation db user_id template_id
             = (Inl (TemplateWithoutClauses template_id), db)"
    by (simp add: start_document_creation_def)
next
  assume h: "get_template_by_id db template_id = Some template
        \<and> clauses = get_clauses_by_template db template_id \<and> clauses \<noteq> []"
  then have c: "get_clauses_by_template db template_id = clauses"
    and n: "get_clauses_by_template db template_id \<noteq> []"
    and t: "get_template_by_id db template_id = Some template"
    and n': "clauses \<noteq> []"
    by auto
  have o: "tc_order_num (hd clauses) = spec_first_order clauses"
    using first_clause_order [OF n] c by simp
  show "\<exists>info db' live_doc.
          start_document_creation db user_id template_id = (Inr info, db')
          \<and> live_documents db' = live_documents db @ [live_doc]
          \<and> ld_id live_doc = di_id info
          \<and> ld_user_id live_doc = user_id
          \<and> ld_doc_template_id live_doc = template_id
          \<and> ld_status live_doc = ''in_progress''
          \<and> ld_content live_doc = []
          \<and> ld_current_clause_order live_doc = 1
          \<and> di_status info = ''in_progress''
          \<and> di_content info = []
          \<and> di_current_clause info = clause_info (hd clauses)
          \<and> ci_order_num (di_current_clause info) = spec_first_order clauses"
    using t n' o
    by (simp add: start_document_creation_def create_live_document_def Let_def clause_info_def c)
qed

theorem start_document_creation_result_witness:
  "get_template_by_id (nda_store two_mandatory []) 1 \<noteq> None
   \<and> get_clauses_by_template (nda_store two_mandatory []) 1 \<noteq> []
   \<and> (\<exists>info db' live_doc.
          start_document_creation (nda_store two_mandatory []) ''user'' 1 = (Inr info, db')
          \<and> live_documents db' = [live_doc]
          \<and> ld_status live_doc = ''in_progress''
          \<and> ld_content live_doc = []
          \<and> ld_current_clause_order live_doc = 1
          \<and> ci_section_name (di_current_clause info) = ''Parties'')"
proof -
  let ?db = "nda_store two_mandatory []"
  let ?t = "\<lparr>dt_id = 1, dt_agent_id = ''nilo'', dt_name = ''NDA-A'',
           dt_description = ''Non-disclosure agreement'', dt_active = True\<rparr>"
  have h: "get_template_by_id ?db 1 = Some ?t
        \<and> two_mandatory = get_clauses_by_template ?db 1 \<and> two_mandatory \<noteq> []"
    by (simp add: nda_store_template two_mandatory_clauses two_mandatory_not_empty)
  have e: "live_documents ?db = []"
    by (simp add: nda_store_def)
  have p: "ci_section_name (clause_info (hd two_mandatory)) = ''Parties''"
    by (simp add: two_mandatory_def clause_info_def)
  obtain info db' live_doc where
    "start_document_creation ?db ''user'' 1 = (Inr info, db')"
    "live_documents db' = live_documents ?db @ [live_doc]"
    "ld_status live_doc = ''in_progress''" "ld_content live_doc = []"
    "ld_current_clause_order live_doc = 1"
    "di_current_clause info = clause_info (hd two_mandatory)"
    using start_document_creation_result
      [of ?db 1 "''user''" ?t two_mandatory, THEN conjunct2, THEN conjunct2, THEN mp, OF h]
    by blast
  then have "\<exists>info db' live_doc.
          start_document_creation ?db ''user'' 1 = (Inr info, db')
          \<and> live_documents db' = [live_doc]
          \<and> ld_status live_doc = ''in_progress''
          \<and> ld_content live_doc = []
          \<and> ld_current_clause_order live_doc = 1
          \<and> ci_section_name (di_current_clause info) = ''Parties''"
    using e p by auto
  moreover have "get_template_by_id ?db 1 \<noteq> None" using h by simp
  moreover have "get_clauses_by_template ?db 1 \<noteq> []" using h by auto
  ultimately show ?thesis by blast
qed

text \<open>
  C7 as stated fails on the cursor: for a template whose first clause has \<open>order_num\<close> 2,
  the new document has \<open>current_clause_order\<close> 1.
\<close>

theorem start_cursor_is_one:
  "spec_first_order (get_clauses_by_template (nda_store late_clauses []) 1) = 2
   \<and> map ld_current_clause_order
        (live_documents (snd (start_document_creation (nda_store late_clauses []) ''user'' 1)))
     = [1]"
proof -
  have "spec_first_order late_clauses = 2"
    by (simp add: spec_first_order_def late_clauses_def)
  moreover have "map ld_current_clause_order
        (live_documents (snd (start_document_creation (nda_store late_clauses []) ''user'' 1)))
     = [1]"
    by (simp add: start_document_creation_def nda_store_template late_clauses_sorted
          create_live_document_def Let_def)
       (simp add: late_clauses_def nda_store_def)
  ultimately show ?thesis by (simp add: late_clauses_sorted)
qed

section \<open>Processing an answer (document\_tools.py)\<close>

lemma find_Some_not_empty: "find P xs = Some x \<Longrightarrow> xs \<noteq> []"
  by (cases xs) auto

lemma process_clause_response_next:
  assumes "get_live_document_by_id db doc_id = Some live_doc"
    and "get_template_by_id db (ld_doc_template_id live_doc) = Some template"
    and "find (\<lambda>c. tc_id c = clause_id) (get_clauses_by_template db (dt_id template))
         = Some current_clause"
    and "find (\<lambda>c. tc_order_num c = tc_order_num current_clause + 1)
           (get_clauses_by_template db (dt_id template)) = Some next_clause"
  shows "fst (process_clause_response db doc_id clause_id user_response filled_content)
         = Inr \<lparr>di_id = ld_id live_doc, di_template_id = dt_id template,
                di_template_name = dt_name template,
                di_current_clause = clause_info next_clause,
                di_content = AList.update (tc_section_name current_clause) filled_content
                               (ld_content live_doc),
                di_status = ld_status live_doc\<rparr>
       \<and> snd (process_clause_response db doc_id clause_id user_response filled_content)
         = snd (update_live_document_content db doc_id
                  (AList.update (tc_section_name current_clause) filled_content
                     (ld_content live_doc))
                  (tc_order_num next_clause))
       \<and> get_live_document_by_id
           (snd (process_clause_response db doc_id clause_id user_response filled_content)) doc_id
         = Some (live_doc\<lparr>ld_content := AList.update (tc_section_name current_clause)
                                          filled_content (ld_content live_doc),
                          ld_current_clause_order := tc_order_num next_clause\<rparr>)"
proof -
  let ?content = "AList.update (tc_section_name current_clause) filled_content (ld_content live_doc)"
  obtain db' where u: "update_live_document_content db doc_id ?content (tc_order_num next_clause)
             = (Inr (live_doc\<lparr>ld_content := ?content,
                             ld_current_clause_order := tc_order_num next_clause\<rparr>), db')"
    and g: "get_live_document_by_id db' doc_id
               = Some (live_doc\<lparr>ld_content := ?content,
                               ld_current_clause_order := tc_order_num next_clause\<rparr>)"
    using update_live_document_content_found [OF assms(1)] by blast
  have n: "get_clauses_by_template db (dt_id template) \<noteq> []"
    using assms(3) by (rule find_Some_not_empty)
  have "process_clause_response db doc_id clause_id user_response filled_content
        = (Inr \<lparr>di_id = ld_id live_doc, di_template_id = dt_id template,
                di_template_name = dt_name template,
                di_current_clause = clause_info next_clause,
                di_content = ?content, di_status = ld_status live_doc\<rparr>, db')"
    using assms n u by (simp add: process_clause_response_def Let_def)
  then show ?thesis using u g by simp
qed

lemma process_clause_response_last:
  assumes "get_live_document_by_id db doc_id = Some live_doc"
    and "get_template_by_id db (ld_doc_template_id live_doc) = Some template"
    and "find (\<lambda>c. tc_id c = clause_id) (get_clauses_by_template db (dt_id template))
         = Some current_clause"
    and "find (\<lambda>c. tc_order_num c = tc_order_num current_clause + 1)
           (get_clauses_by_template db (dt_id template)) = None"
  shows "fst (process_clause_response db doc_id clause_id user_response filled_content)
         = Inr \<lparr>di_id = ld_id live_doc, di_template_id = dt_id template,
                di_template_name = dt_name template,
                di_current_clause = clause_info current_clause,
                di_content = AList.update (tc_section_name current_clause) filled_content
                               (ld_content live_doc),
                di_status = ''completed''\<rparr>
       \<and> snd (process_clause_response db doc_id clause_id user_response filled_content)
         = snd (db_complete_document db doc_id)
       \<and> get_live_document_by_id
           (snd (process_clause_response db doc_id clause_id user_response filled_content)) doc_id
         = Some (live_doc\<lparr>ld_status := ''completed''\<rparr>)"
proof -
  obtain db' where u: "db_complete_document db doc_id
             = (Inr (live_doc\<lparr>ld_status := ''completed''\<rparr>), db')"
    and g: "get_live_document_by_id db' doc_id = Some (live_doc\<lparr>ld_status := ''completed''\<rparr>)"
    using db_complete_document_found [OF assms(1)] by blast
  have n: "get_clauses_by_template db (dt_id template) \<noteq> []"
    using assms(3) by (rule find_Some_not_empty)
  have "process_clause_response db doc_id clause_id user_response filled_content
        = (Inr \<lparr>di_id = ld_id live_doc, di_template_id = dt_id template,
                di_template_name = dt_name template,
                di_current_clause = clause_info current_clause,
                di_content = AList.update (tc_section_name current_clause) filled_content
                               (ld_content live_doc),
                di_status = ''completed''\<rparr>, db')"
    using assms n u g by (simp add: process_clause_response_def Let_def)
  then show ?thesis using u g by simp
qed

lemma spec_next_order_successor:
  assumes "find (\<lambda>c. tc_order_num c = current + 1) clauses = Some next_clause"
  shows "spec_next_order clauses current = Some (current + 1)"
proof -
  let ?greater = "filter (\<lambda>n. n > current) (map tc_order_num clauses)"
  have "next_clause \<in> set clauses" "tc_order_num next_clause = current + 1"
    using assms by (auto simp: find_Some_iff in_set_conv_nth)
  then have m: "current + 1 \<in> set ?greater" by force
  then have ne: "?greater \<noteq> []" by (metis empty_iff empty_set)
  have "Min (set ?greater) = current + 1"
    using m by (intro Min_eqI) auto
  then show ?thesis using ne by (simp add: spec_next_order_def Let_def)
qed

lemma gap_clauses_sorted:
  "get_clauses_by_template (nda_store gap_clauses documents) 1 = gap_clauses"
  by (simp add: get_clauses_by_template_def nda_store_def gap_clauses_def)

text \<open>
  C1, as the code has it. For a stored document and a clause of its template, named by the
  caller, any filled content is accepted. When the template has a clause numbered one more
  than the answered clause, that clause is returned as the next one and the stored
  \<open>current_clause_order\<close> becomes its number, which is then the smallest \<open>order_num\<close> greater
  than the answered clause's. When the template has no clause with that number, the answer
  is the completion signal: the returned status is completed.
\<close>

theorem process_clause_response_advances:
  assumes "get_live_document_by_id db doc_id = Some live_doc"
    and "get_template_by_id db (ld_doc_template_id live_doc) = Some template"
    and "clauses = get_clauses_by_template db (dt_id template)"
    and "find (\<lambda>c. tc_id c = clause_id) clauses = Some current_clause"
  shows "(find (\<lambda>c. tc_order_num c = tc_order_num current_clause + 1) clauses = Some next_clause
          \<longrightarrow> (\<exists>info. fst (process_clause_response db doc_id clause_id user_response filled_content)
                       = Inr info
                     \<and> di_current_clause info = clause_info next_clause)
              \<and> map_option ld_current_clause_order
                   (get_live_document_by_id
                      (snd (process_clause_response db doc_id clause_id user_response filled_content))
                      doc_id)
                 = Some (tc_order_num current_clause + 1)
              \<and> spec_next_order clauses (tc_order_num current_clause)
                 = Some (tc_order_num current_clause + 1))
       \<and> (find (\<lambda>c. tc_order_num c = tc_order_num current_clause + 1) clauses = None
          \<longrightarrow> (\<exists>info. fst (process_clause_response db doc_id clause_id user_response filled_content)
                       = Inr info
                     \<and> di_status info = ''completed''))"
proof (intro conjI impI)
  assume n: "find (\<lambda>c. tc_order_num c = tc_order_num current_clause + 1) clauses = Some next_clause"
  then have o: "tc_order_num next_clause = tc_order_num current_clause + 1"
    by (auto simp: find_Some_iff)
  note p = process_clause_response_next
    [OF assms(1,2) assms(4) [unfolded assms(3)] n [unfolded assms(3)],
     of user_response filled_content]
  show "\<exists>info. fst (process_clause_response db doc_id clause_id user_response filled_content)
                = Inr info
              \<and> di_current_clause info = clause_info next_clause"
    using p [THEN conjunct1] by simp
  show "map_option ld_current_clause_order
          (get_live_document_by_id
             (snd (process_clause_response db doc_id clause_id user_response filled_content))
             doc_id)
        = Some (tc_order_num current_clause + 1)"
    using p [THEN conjunct2, THEN conjunct2] o by simp
  show "spec_next_order clauses (tc_order_num current_clause)
        = Some (tc_order_num current_clause + 1)"
    using n by (rule spec_next_order_successor)
next
  assume n: "find (\<lambda>c. tc_order_num c = tc_order_num current_clause + 1) clauses = None"
  note p = process_clause_response_last
    [OF assms(1,2) assms(4) [unfolded assms(3)] n [unfolded assms(3)],
     of user_response filled_content]
  show "\<exists>info. fst (process_clause_response db doc_id clause_id user_response filled_content)
                = Inr info
              \<and> di_status info = ''completed''"
    using p [THEN conjunct1] by simp
qed

theorem process_clause_response_advances_witness:
  "(\<exists>info. fst (process_clause_response
                 (nda_store two_mandatory [mk_document ''in_progress'' [] 1]) 1 10
                 ''Acme Inc.'' ''Acme Inc.'') = Inr info
           \<and> ci_section_name (di_current_clause info) = ''Term'')
   \<and> map_option ld_current_clause_order
        (get_live_document_by_id
           (snd (process_clause_response
                   (nda_store two_mandatory [mk_document ''in_progress'' [] 1]) 1 10
                   ''Acme Inc.'' ''Acme Inc.'')) 1)
      = Some 2
   \<and> spec_next_order two_mandatory 1 = Some 2"
proof -
  let ?doc = "mk_document ''in_progress'' [] 1"
  let ?db = "nda_store two_mandatory [?doc]"
  let ?t = "\<lparr>dt_id = 1, dt_agent_id = ''nilo'', dt_name = ''NDA-A'',
           dt_description = ''Non-disclosure agreement'', dt_active = True\<rparr>"
  let ?c = "mk_clause 10 1 ''Parties'' ''mandatory''"
  let ?n = "mk_clause 11 2 ''Term'' ''mandatory''"
  have 1: "get_live_document_by_id ?db 1 = Some ?doc"
    by (rule nda_store_document)
  have 2: "get_template_by_id ?db (ld_doc_template_id ?doc) = Some ?t"
    by (simp add: nda_store_template)
  have 3: "two_mandatory = get_clauses_by_template ?db (dt_id ?t)"
    by (simp add: two_mandatory_clauses)
  have 4: "find (\<lambda>c. tc_id c = 10) two_mandatory = Some ?c"
    by (simp add: two_mandatory_def)
  have 5: "find (\<lambda>c. tc_order_num c = tc_order_num ?c + 1) two_mandatory = Some ?n"
    by (simp add: two_mandatory_def)
  note T = process_clause_response_advances
    [OF 1 2 3 4, of ?n "''Acme Inc.''" "''Acme Inc.''", THEN conjunct1, THEN mp, OF 5]
  have "ci_section_name (clause_info ?n) = ''Term''"
    by (simp add: clause_info_def)
  then show ?thesis
    using T by auto
qed

text \<open>
  C1 as stated fails on non-contiguous numbering: with clauses numbered 1 and 3, the answer
  to clause 1 completes the document and the stored cursor stays 1, although the smallest
  greater \<open>order_num\<close> is 3.
\<close>

theorem gap_completes_early:
  "spec_next_order (get_clauses_by_template (nda_store gap_clauses [mk_document ''in_progress'' [] 1]) 1) 1
     = Some 3
   \<and> map_option ld_current_clause_order
        (get_live_document_by_id
           (snd (process_clause_response
                   (nda_store gap_clauses [mk_document ''in_progress'' [] 1]) 1 10
                   ''Acme Inc.'' ''Acme Inc.'')) 1)
      = Some 1
   \<and> map_option ld_status
        (get_live_document_by_id
           (snd (process_clause_response
                   (nda_store gap_clauses [mk_document ''in_progress'' [] 1]) 1 10
                   ''Acme Inc.'' ''Acme Inc.'')) 1)
      = Some ''completed''"
proof -
  let ?doc = "mk_document ''in_progress'' [] 1"
  let ?db = "nda_store gap_clauses [?doc]"
  let ?t = "\<lparr>dt_id = 1, dt_agent_id = ''nilo'', dt_name = ''NDA-A'',
           dt_description = ''Non-disclosure agreement'', dt_active = True\<rparr>"
  let ?c = "mk_clause 10 1 ''Parties'' ''mandatory''"
  have 1: "get_live_document_by_id ?db 1 = Some ?doc"
    by (rule nda_store_document)
  have 2: "get_template_by_id ?db (ld_doc_template_id ?doc) = Some ?t"
    by (simp add: nda_store_template)
  have 3: "find (\<lambda>c. tc_id c = 10) (get_clauses_by_template ?db (dt_id ?t)) = Some ?c"
    by (simp add: gap_clauses_sorted) (simp add: gap_clauses_def)
  have 4: "find (\<lambda>c. tc_order_num c = tc_order_num ?c + 1)
             (get_clauses_by_template ?db (dt_id ?t)) = None"
    by (simp add: gap_clauses_sorted) (simp add: gap_clauses_def)
  have "spec_next_order gap_clauses 1 = Some 3"
    by (simp add: spec_next_order_def gap_clauses_def)
  then have s: "spec_next_order (get_clauses_by_template ?db 1) 1 = Some 3"
    by (simp add: gap_clauses_sorted)
  have "get_live_document_by_id
          (snd (process_clause_response ?db 1 10 ''Acme Inc.'' ''Acme Inc.'')) 1
        = Some (?doc\<lparr>ld_status := ''completed''\<rparr>)"
    by (rule process_clause_response_last
          [OF 1 2 3 4, of "''Acme Inc.''" "''Acme Inc.''", THEN conjunct2, THEN conjunct2])
  then show ?thesis using s by simp
qed

section \<open>Completion\<close>

lemma complete_document_failure_keeps_store:
  "complete_document db doc_id = (Inl e, db') \<Longrightarrow> db' = db"
  by (auto simp: complete_document_def db_complete_document_def Let_def
        split: option.splits if_splits)

lemma complete_document_success:
  assumes "complete_document db doc_id = (Inr text, db')"
  shows "\<exists>live_doc template.
           get_live_document_by_id db doc_id = Some live_doc
           \<and> get_template_by_id db (ld_doc_template_id live_doc) = Some template
           \<and> spec_missing (get_clauses_by_template db (dt_id template)) (ld_content live_doc) = []
           \<and> get_live_document_by_id db' doc_id = Some (live_doc\<lparr>ld_status := ''completed''\<rparr>)
           \<and> doc_templates db' = doc_templates db
           \<and> template_clauses db' = template_clauses db"
proof -
  obtain live_doc where d: "get_live_document_by_id db doc_id = Some live_doc"
    using assms by (cases "get_live_document_by_id db doc_id") (auto simp: complete_document_def)
  obtain template where t: "get_template_by_id db (ld_doc_template_id live_doc) = Some template"
    using assms d
    by (cases "get_template_by_id db (ld_doc_template_id live_doc)")
       (auto simp: complete_document_def)
  have n: "get_clauses_by_template db (dt_id template) \<noteq> []"
    using assms d t by (auto simp: complete_document_def Let_def split: if_splits)
  have m: "spec_missing (get_clauses_by_template db (dt_id template)) (ld_content live_doc) = []"
  proof (cases "spec_missing (get_clauses_by_template db (dt_id template)) (ld_content live_doc)")
    case Nil
    then show ?thesis .
  next
    case (Cons c rest)
    then show ?thesis
      using complete_document_missing [OF d t n Cons] assms by simp
  qed
  obtain db'' where u: "db_complete_document db doc_id
             = (Inr (live_doc\<lparr>ld_status := ''completed''\<rparr>), db'')"
    and g: "get_live_document_by_id db'' doc_id = Some (live_doc\<lparr>ld_status := ''completed''\<rparr>)"
    and k: "doc_templates db'' = doc_templates db" "template_clauses db'' = template_clauses db"
    using db_complete_document_found [OF d] by blast
  have "db' = db''"
    using assms d t n m u
    by (simp add: complete_document_def Let_def mandatory_check_spec_missing)
  then show ?thesis using d t m g k by simp
qed

text \<open>
  C2, as the code has it. A document that \<open>complete_document\<close> marks completed has every
  mandatory clause's section as a key of its content, and a failed \<open>complete_document\<close>
  returns the store as it was. Answer processing marks documents completed too, with no
  look at the mandatory clauses: \<open>process_clause_response\<close> does so whenever the answered
  clause has no clause numbered one more.
\<close>

theorem completed_by_finalize_or_last_answer:
  "(complete_document db doc_id = (Inr text, db') \<longrightarrow>
      (\<exists>live_doc template.
          get_live_document_by_id db' doc_id = Some live_doc
          \<and> ld_status live_doc = ''completed''
          \<and> get_template_by_id db' (ld_doc_template_id live_doc) = Some template
          \<and> (\<forall>c \<in> set (get_clauses_by_template db' (dt_id template)).
                tc_type c = ''mandatory''
                \<longrightarrow> tc_section_name c \<in> fst ` set (ld_content live_doc))))
   \<and> (complete_document db doc_id = (Inl e, db') \<longrightarrow> db' = db)
   \<and> (get_live_document_by_id db doc_id = Some live_doc
        \<and> get_template_by_id db (ld_doc_template_id live_doc) = Some template
        \<and> find (\<lambda>c. tc_id c = clause_id) (get_clauses_by_template db (dt_id template))
            = Some current_clause
        \<and> find (\<lambda>c. tc_order_num c = tc_order_num current_clause + 1)
             (get_clauses_by_template db (dt_id template)) = None
      \<longrightarrow> map_option ld_status
            (get_live_document_by_id
               (snd (process_clause_response db doc_id clause_id user_response filled_content))
               doc_id)
          = Some ''completed'')"
proof (intro conjI impI)
  assume "complete_document db doc_id = (Inr text, db')"
  then obtain live_doc template where
    d: "get_live_document_by_id db doc_id = Some live_doc"
    and t: "get_template_by_id db (ld_doc_template_id live_doc) = Some template"
    and m: "spec_missing (get_clauses_by_template db (dt_id template)) (ld_content live_doc) = []"
    and g: "get_live_document_by_id db' doc_id = Some (live_doc\<lparr>ld_status := ''completed''\<rparr>)"
    and k: "doc_templates db' = doc_templates db" "template_clauses db' = template_clauses db"
    using complete_document_success by blast
  have t': "get_template_by_id db' (ld_doc_template_id live_doc) = Some template"
    using t k by (simp add: get_template_by_id_def)
  have c': "get_clauses_by_template db' (dt_id template)
            = get_clauses_by_template db (dt_id template)"
    using k by (simp add: get_clauses_by_template_def)
  show "\<exists>live_doc template.
          get_live_document_by_id db' doc_id = Some live_doc
          \<and> ld_status live_doc = ''completed''
          \<and> get_template_by_id db' (ld_doc_template_id live_doc) = Some template
          \<and> (\<forall>c \<in> set (get_clauses_by_template db' (dt_id template)).
                tc_type c = ''mandatory''
                \<longrightarrow> tc_section_name c \<in> fst ` set (ld_content live_doc))"
    using g t' c' m [unfolded spec_missing_empty]
    by (intro exI [of _ "live_doc\<lparr>ld_status := ''completed''\<rparr>"] exI [of _ template]) simp
next
  assume "complete_document db doc_id = (Inl e, db')"
  then show "db' = db" by (rule complete_document_failure_keeps_store)
next
  assume h: "get_live_document_by_id db doc_id = Some live_doc
        \<and> get_template_by_id db (ld_doc_template_id live_doc) = Some template
        \<and> find (\<lambda>c. tc_id c = clause_id) (get_clauses_by_template db (dt_id template))
            = Some current_clause
        \<and> find (\<lambda>c. tc_order_num c = tc_order_num current_clause + 1)
             (get_clauses_by_template db (dt_id template)) = None"
  then have "get_live_document_by_id
               (snd (process_clause_response db doc_id clause_id user_response filled_content))
               doc_id
             = Some (live_doc\<lparr>ld_status := ''completed''\<rparr>)"
    using process_clause_response_last [of db doc_id live_doc template clause_id current_clause]
    by blast
  then show "map_option ld_status
            (get_live_document_by_id
               (snd (process_clause_response db doc_id clause_id user_response filled_content))
               doc_id)
          = Some ''completed''"
    by simp
qed

lemma two_mandatory_find:
  "find (\<lambda>c. tc_id c = 10) two_mandatory = Some (mk_clause 10 1 ''Parties'' ''mandatory'')"
  "find (\<lambda>c. tc_id c = 11) two_mandatory = Some (mk_clause 11 2 ''Term'' ''mandatory'')"
  "find (\<lambda>c. tc_order_num c = 2) two_mandatory = Some (mk_clause 11 2 ''Term'' ''mandatory'')"
  "find (\<lambda>c. tc_order_num c = 3) two_mandatory = None"
  by (simp_all add: two_mandatory_def)

lemma nda_store_complete:
  "snd (db_complete_document (nda_store clauses [mk_document status content n]) 1)
   = nda_store clauses [mk_document ''completed'' content n]"
  by (simp add: db_complete_document_def nda_store_def mk_document_def)

theorem completed_by_finalize_or_last_answer_witness:
  "(\<exists>text db'.
      complete_document
        (nda_store two_mandatory
           [mk_document ''in_progress'' [(''Parties'', ''Acme''), (''Term'', ''5 years'')] 2]) 1
      = (Inr text, db')
      \<and> map_option ld_status (get_live_document_by_id db' 1) = Some ''completed'')
   \<and> map_option ld_status
        (get_live_document_by_id
           (snd (process_clause_response
                   (nda_store two_mandatory [mk_document ''in_progress'' [(''Parties'', ''Acme'')] 2])
                   1 11 ''5 years'' ''5 years'')) 1)
      = Some ''completed''"
proof -
  let ?full = "mk_document ''in_progress'' [(''Parties'', ''Acme''), (''Term'', ''5 years'')] 2"
  let ?dbf = "nda_store two_mandatory [?full]"
  let ?doc = "mk_document ''in_progress'' [(''Parties'', ''Acme'')] 2"
  let ?db = "nda_store two_mandatory [?doc]"
  let ?t = "\<lparr>dt_id = 1, dt_agent_id = ''nilo'', dt_name = ''NDA-A'',
           dt_description = ''Non-disclosure agreement'', dt_active = True\<rparr>"
  let ?c = "mk_clause 11 2 ''Term'' ''mandatory''"
  have f1: "get_live_document_by_id ?dbf 1 = Some ?full"
    by (rule nda_store_document)
  have f2: "get_template_by_id ?dbf (ld_doc_template_id ?full) = Some ?t"
    by (simp add: nda_store_template)
  have f3: "get_clauses_by_template ?dbf (dt_id ?t) \<noteq> []"
    by (simp add: two_mandatory_clauses two_mandatory_not_empty)
  have f4: "spec_missing (get_clauses_by_template ?dbf (dt_id ?t)) (ld_content ?full) = []"
    by (simp add: two_mandatory_clauses) (simp add: spec_missing_def two_mandatory_def)
  obtain doc_text db' where s: "complete_document ?dbf 1 = (Inr doc_text, db')"
    using complete_document_none_missing [OF f1 f2 f3 f4] by blast
  have "\<exists>live_doc template.
          get_live_document_by_id db' 1 = Some live_doc
          \<and> ld_status live_doc = ''completed''
          \<and> get_template_by_id db' (ld_doc_template_id live_doc) = Some template
          \<and> (\<forall>c \<in> set (get_clauses_by_template db' (dt_id template)).
                tc_type c = ''mandatory''
                \<longrightarrow> tc_section_name c \<in> fst ` set (ld_content live_doc))"
    by (rule completed_by_finalize_or_last_answer [THEN conjunct1, THEN mp, OF s])
  then have a: "map_option ld_status (get_live_document_by_id db' 1) = Some ''completed''"
    by auto
  have h: "get_live_document_by_id ?db 1 = Some ?doc
        \<and> get_template_by_id ?db (ld_doc_template_id ?doc) = Some ?t
        \<and> find (\<lambda>c. tc_id c = 11) (get_clauses_by_template ?db (dt_id ?t)) = Some ?c
        \<and> find (\<lambda>c. tc_order_num c = tc_order_num ?c + 1)
             (get_clauses_by_template ?db (dt_id ?t)) = None"
    by (simp add: nda_store_document nda_store_template two_mandatory_clauses two_mandatory_find)
  have b: "map_option ld_status
        (get_live_document_by_id
           (snd (process_clause_response ?db 1 11 ''5 years'' ''5 years'')) 1)
      = Some ''completed''"
    by (rule completed_by_finalize_or_last_answer
          [THEN conjunct2, THEN conjunct2, THEN mp, OF h])
  from s a b show ?thesis by blast
qed

text \<open>
  C2 as stated fails: answer processing completes a document whose mandatory section is
  missing. With the mandatory clauses "Parties" and "Term" and a new document, an answer
  to "Term" finds no clause numbered 3 and marks the document completed; "Parties" is
  neither in the stored content nor in the returned one.
\<close>

theorem completed_with_mandatory_missing:
  "get_clauses_by_template (nda_store two_mandatory [mk_document ''in_progress'' [] 1]) 1
     = [mk_clause 10 1 ''Parties'' ''mandatory'', mk_clause 11 2 ''Term'' ''mandatory'']
   \<and> fst (process_clause_response (nda_store two_mandatory [mk_document ''in_progress'' [] 1])
            1 11 ''5 years'' ''5 years'')
     = Inr \<lparr>di_id = 1, di_template_id = 1, di_template_name = ''NDA-A'',
            di_current_clause = clause_info (mk_clause 11 2 ''Term'' ''mandatory''),
            di_content = [(''Term'', ''5 years'')], di_status = ''completed''\<rparr>
   \<and> get_live_document_by_id
        (snd (process_clause_response (nda_store two_mandatory [mk_document ''in_progress'' [] 1])
                1 11 ''5 years'' ''5 years'')) 1
     = Some (mk_document ''completed'' [] 1)"
proof -
  let ?doc = "mk_document ''in_progress'' [] 1"
  let ?db = "nda_store two_mandatory [?doc]"
  let ?t = "\<lparr>dt_id = 1, dt_agent_id = ''nilo'', dt_name = ''NDA-A'',
           dt_description = ''Non-disclosure agreement'', dt_active = True\<rparr>"
  let ?c = "mk_clause 11 2 ''Term'' ''mandatory''"
  have 1: "get_live_document_by_id ?db 1 = Some ?doc"
    by (rule nda_store_document)
  have 2: "get_template_by_id ?db (ld_doc_template_id ?doc) = Some ?t"
    by (simp add: nda_store_template)
  have 3: "find (\<lambda>c. tc_id c = 11) (get_clauses_by_template ?db (dt_id ?t)) = Some ?c"
    by (simp add: two_mandatory_clauses two_mandatory_find)
  have 4: "find (\<lambda>c. tc_order_num c = tc_order_num ?c + 1)
             (get_clauses_by_template ?db (dt_id ?t)) = None"
    by (simp add: two_mandatory_clauses two_mandatory_find)
  note p = process_clause_response_last [OF 1 2 3 4, of "''5 years''" "''5 years''"]
  have a: "get_clauses_by_template ?db 1
     = [mk_clause 10 1 ''Parties'' ''mandatory'', mk_clause 11 2 ''Term'' ''mandatory'']"
    by (simp add: two_mandatory_clauses) (simp add: two_mandatory_def)
  have b: "fst (process_clause_response ?db 1 11 ''5 years'' ''5 years'')
     = Inr \<lparr>di_id = 1, di_template_id = 1, di_template_name = ''NDA-A'',
            di_current_clause = clause_info ?c,
            di_content = [(''Term'', ''5 years'')], di_status = ''completed''\<rparr>"
    using p [THEN conjunct1] by simp
  have c: "get_live_document_by_id
        (snd (process_clause_response ?db 1 11 ''5 years'' ''5 years'')) 1
     = Some (mk_document ''completed'' [] 1)"
    using p [THEN conjunct2, THEN conjunct2] by (simp add: mk_document_def)
  from a b c show ?thesis by blast
qed

section \<open>The answer to the last clause\<close>

text \<open>
  C6 at the last clause. The document has "Parties" and waits for "Term", the last
  clause. The answer is returned as part of the content of a completed document, yet the
  only store call is the one that sets the status: the stored content has no "Term" and
  the stored cursor is unchanged, and \<open>complete_document\<close> then refuses the document for
  its missing mandatory clause.
\<close>

theorem last_answer_not_persisted:
  "fst (process_clause_response
          (nda_store two_mandatory [mk_document ''in_progress'' [(''Parties'', ''Acme'')] 2])
          1 11 ''5 years'' ''5 years'')
     = Inr \<lparr>di_id = 1, di_template_id = 1, di_template_name = ''NDA-A'',
            di_current_clause = clause_info (mk_clause 11 2 ''Term'' ''mandatory''),
            di_content = [(''Parties'', ''Acme''), (''Term'', ''5 years'')],
            di_status = ''completed''\<rparr>
   \<and> snd (process_clause_response
          (nda_store two_mandatory [mk_document ''in_progress'' [(''Parties'', ''Acme'')] 2])
          1 11 ''5 years'' ''5 years'')
     = nda_store two_mandatory [mk_document ''completed'' [(''Parties'', ''Acme'')] 2]
   \<and> fst (complete_document
            (snd (process_clause_response
                    (nda_store two_mandatory
                       [mk_document ''in_progress'' [(''Parties'', ''Acme'')] 2])
                    1 11 ''5 years'' ''5 years'')) 1)
     = Inl (MandatoryClauseNotFilled ''Term'')"
proof -
  let ?doc = "mk_document ''in_progress'' [(''Parties'', ''Acme'')] 2"
  let ?db = "nda_store two_mandatory [?doc]"
  let ?done = "mk_document ''completed'' [(''Parties'', ''Acme'')] 2"
  let ?db' = "nda_store two_mandatory [?done]"
  let ?t = "\<lparr>dt_id = 1, dt_agent_id = ''nilo'', dt_name = ''NDA-A'',
           dt_description = ''Non-disclosure agreement'', dt_active = True\<rparr>"
  let ?c = "mk_clause 11 2 ''Term'' ''mandatory''"
  have 1: "get_live_document_by_id ?db 1 = Some ?doc"
    by (rule nda_store_document)
  have 2: "get_template_by_id ?db (ld_doc_template_id ?doc) = Some ?t"
    by (simp add: nda_store_template)
  have 3: "find (\<lambda>c. tc_id c = 11) (get_clauses_by_template ?db (dt_id ?t)) = Some ?c"
    by (simp add: two_mandatory_clauses two_mandatory_find)
  have 4: "find (\<lambda>c. tc_order_num c = tc_order_num ?c + 1)
             (get_clauses_by_template ?db (dt_id ?t)) = None"
    by (simp add: two_mandatory_clauses two_mandatory_find)
  note p = process_clause_response_last [OF 1 2 3 4, of "''5 years''" "''5 years''"]
  have a: "fst (process_clause_response ?db 1 11 ''5 years'' ''5 years'')
     = Inr \<lparr>di_id = 1, di_template_id = 1, di_template_name = ''NDA-A'',
            di_current_clause = clause_info ?c,
            di_content = [(''Parties'', ''Acme''), (''Term'', ''5 years'')],
            di_status = ''completed''\<rparr>"
    using p [THEN conjunct1] by simp
  have b: "snd (process_clause_response ?db 1 11 ''5 years'' ''5 years'') = ?db'"
    using p [THEN conjunct2, THEN conjunct1] by (simp only: nda_store_complete)
  have q1: "get_live_document_by_id ?db' 1 = Some ?done"
    by (rule nda_store_document)
  have q2: "get_template_by_id ?db' (ld_doc_template_id ?done) = Some ?t"
    by (simp add: nda_store_template)
  have q3: "get_clauses_by_template ?db' (dt_id ?t) \<noteq> []"
    by (simp add: two_mandatory_clauses two_mandatory_not_empty)
  have q4: "spec_missing (get_clauses_by_template ?db' (dt_id ?t)) (ld_content ?done) = [?c]"
    by (simp add: two_mandatory_clauses) (simp add: spec_missing_def two_mandatory_def)
  have c: "fst (complete_document ?db' 1) = Inl (MandatoryClauseNotFilled ''Term'')"
    using complete_document_missing [OF q1 q2 q3 q4] by simp
  from a b c show ?thesis by simp
qed

section \<open>Which session, which clause\<close>

lemma map_of_update_same: "map_of (AList.update k v al) k = Some v"
  by (simp add: update_conv')

lemma process_clause_response_stores:
  assumes "get_live_document_by_id db doc_id = Some live_doc"
    and "get_template_by_id db (ld_doc_template_id live_doc) = Some template"
    and "find (\<lambda>c. tc_id c = clause_id) (get_clauses_by_template db (dt_id template))
         = Some current_clause"
  shows "\<exists>info. fst (process_clause_response db doc_id clause_id user_response filled_content)
                 = Inr info
               \<and> map_of (di_content info) (tc_section_name current_clause) = Some filled_content"
proof (cases "find (\<lambda>c. tc_order_num c = tc_order_num current_clause + 1)
                (get_clauses_by_template db (dt_id template))")
  case None
  show ?thesis
    using process_clause_response_last [OF assms None, of user_response filled_content,
                                        THEN conjunct1]
    by (simp add: map_of_update_same)
next
  case (Some next_clause)
  show ?thesis
    using process_clause_response_next [OF assms Some, of user_response filled_content,
                                        THEN conjunct1]
    by (simp add: map_of_update_same)
qed

lemma update_document_agent_content_found:
  assumes "get_document_agent db doc_id = Some doc_agent"
  shows "\<exists>db'. update_document_agent_content db doc_id section_name content n
             = Inr (doc_agent\<lparr>da_content := AList.update section_name content (da_content doc_agent),
                             da_current_clause_order := n\<rparr>, db')
           \<and> get_document_agent db' doc_id
             = Some (doc_agent\<lparr>da_content := AList.update section_name content (da_content doc_agent),
                              da_current_clause_order := n\<rparr>)"
  using assms
  by (simp add: update_document_agent_content_def get_document_agent_def Let_def
        find_map_update [where key = da_id
          and f = "\<lambda>r. r\<lparr>da_content := AList.update section_name content (da_content doc_agent),
                          da_current_clause_order := n\<rparr>"])

lemma agent_accepts:
  assumes "\<not> no_document_id self"
    and "current_clause_index self < length (current_clauses self)"
    and "validate_response rs user_response (current_clauses self ! current_clause_index self)
         = Inr r"
    and "valid r"
    and "get_document_agent (self_db self) (the (current_document_id self)) = Some doc_agent"
  shows "fst (agent_process_clause_response rs self user_response)
         = SectionCompleted (c_section_name (current_clauses self ! current_clause_index self))
             user_response
       \<and> get_document_agent (self_db (snd (agent_process_clause_response rs self user_response)))
           (the (current_document_id self))
         = Some (doc_agent
                  \<lparr>da_content :=
                     AList.update (c_section_name (current_clauses self ! current_clause_index self))
                       user_response (da_content doc_agent),
                   da_current_clause_order :=
                     c_order_num (current_clauses self ! current_clause_index self)\<rparr>)"
proof -
  let ?c = "current_clauses self ! current_clause_index self"
  obtain db' where u: "update_document_agent_content (self_db self) (the (current_document_id self))
                         (c_section_name ?c) user_response (c_order_num ?c)
             = Inr (doc_agent\<lparr>da_content := AList.update (c_section_name ?c) user_response
                                                (da_content doc_agent),
                             da_current_clause_order := c_order_num ?c\<rparr>, db')"
    and g: "get_document_agent db' (the (current_document_id self))
             = Some (doc_agent\<lparr>da_content := AList.update (c_section_name ?c) user_response
                                                 (da_content doc_agent),
                              da_current_clause_order := c_order_num ?c\<rparr>)"
    using update_document_agent_content_found [OF assms(5)] by blast
  have "agent_process_clause_response rs self user_response
        = (SectionCompleted (c_section_name ?c) user_response, self\<lparr>self_db := db'\<rparr>)"
    using assms(1-4) u by (simp add: agent_process_clause_response_def Let_def)
  then show ?thesis using g by simp
qed

lemma process_clause_response_writes:
  assumes "get_live_document_by_id db doc_id = Some live_doc"
    and "get_template_by_id db (ld_doc_template_id live_doc) = Some template"
    and "find (\<lambda>c. tc_id c = clause_id) (get_clauses_by_template db (dt_id template))
         = Some current_clause"
    and "find (\<lambda>c. tc_order_num c = tc_order_num current_clause + 1)
           (get_clauses_by_template db (dt_id template)) = Some next_clause"
  shows "\<exists>stored.
           get_live_document_by_id
             (snd (process_clause_response db doc_id clause_id user_response filled_content)) doc_id
           = Some stored
           \<and> map_of (ld_content stored) (tc_section_name current_clause) = Some filled_content
           \<and> ld_current_clause_order stored = tc_order_num current_clause + 1
           \<and> ld_status stored = ld_status live_doc"
proof -
  have o: "tc_order_num next_clause = tc_order_num current_clause + 1"
    using assms(4) by (auto simp: find_Some_iff)
  show ?thesis
    using process_clause_response_next [OF assms, of user_response filled_content,
                                        THEN conjunct2, THEN conjunct2] o
    by (simp add: map_of_update_same)
qed


text \<open>
  C4, as the code has it. \<open>process_clause_response\<close> of the document tools fails, in this
  order and with the store as it was, when the document is missing, when its template is
  missing, when the template has no clauses, and when the template has clauses but none
  with the caller's \<open>clause_id\<close>. Otherwise it succeeds, whatever the document's status
  and \<open>current_clause_order\<close> are, and the clause it stores against is the first clause
  with that id: when the template has a clause numbered one more, the stored row has the
  content under that clause's section and the cursor at the next number, its status
  unchanged. The agent's tool answers "no active session" when it has no document id or
  its clause index is past the last clause; otherwise the clause it validates against is
  the one at its clause index, and for an accepted answer the stored row has the answer
  under that clause's section and that clause's \<open>order_num\<close> as \<open>current_clause_order\<close>.
\<close>

theorem process_clause_response_resolution:
  "(get_live_document_by_id db doc_id = None \<longrightarrow>
      process_clause_response db doc_id clause_id user_response filled_content
      = (Inl (DocumentNotFound doc_id), db))
   \<and> (get_live_document_by_id db doc_id = Some live_doc
        \<and> get_template_by_id db (ld_doc_template_id live_doc) = None
      \<longrightarrow> process_clause_response db doc_id clause_id user_response filled_content
          = (Inl (TemplateNotFound (ld_doc_template_id live_doc)), db))
   \<and> (get_live_document_by_id db doc_id = Some live_doc
        \<and> get_template_by_id db (ld_doc_template_id live_doc) = Some template
        \<and> get_clauses_by_template db (dt_id template) = []
      \<longrightarrow> process_clause_response db doc_id clause_id user_response filled_content
          = (Inl (TemplateWithoutClauses (dt_id template)), db))
   \<and> (get_live_document_by_id db doc_id = Some live_doc
        \<and> get_template_by_id db (ld_doc_template_id live_doc) = Some template
        \<and> get_clauses_by_template db (dt_id template) \<noteq> []
        \<and> find (\<lambda>c. tc_id c = clause_id) (get_clauses_by_template db (dt_id template)) = None
      \<longrightarrow> process_clause_response db doc_id clause_id user_response filled_content
          = (Inl (ClauseNotFound clause_id), db))
   \<and> (get_live_document_by_id db doc_id = Some live_doc
        \<and> get_template_by_id db (ld_doc_template_id live_doc) = Some template
        \<and> find (\<lambda>c. tc_id c = clause_id) (get_clauses_by_template db (dt_id template))
            = Some current_clause
      \<longrightarrow> (\<exists>info. fst (process_clause_response db doc_id clause_id user_response filled_content)
                   = Inr info))
   \<and> (get_live_document_by_id db doc_id = Some live_doc
        \<and> get_template_by_id db (ld_doc_template_id live_doc) = Some template
        \<and> find (\<lambda>c. tc_id c = clause_id) (get_clauses_by_template db (dt_id template))
            = Some current_clause
        \<and> find (\<lambda>c. tc_order_num c = tc_order_num current_clause + 1)
             (get_clauses_by_template db (dt_id template)) = Some next_clause
      \<longrightarrow> (\<exists>stored.
             get_live_document_by_id
               (snd (process_clause_response db doc_id clause_id user_response filled_content))
               doc_id = Some stored
             \<and> map_of (ld_content stored) (tc_section_name current_clause) = Some filled_content
             \<and> ld_current_clause_order stored = tc_order_num current_clause + 1
             \<and> ld_status stored = ld_status live_doc))
   \<and> (no_document_id self \<or> current_clause_index self \<ge> length (current_clauses self)
      \<longrightarrow> agent_process_clause_response rs self user_response = (NoActiveSession, self))
   \<and> (\<not> no_document_id self
        \<and> current_clause_index self < length (current_clauses self)
        \<and> validate_response rs user_response (current_clauses self ! current_clause_index self)
            = Inr r
        \<and> \<not> valid r
      \<longrightarrow> agent_process_clause_response rs self user_response
          = (ValidationAlert (message r)
               (c_section_name (current_clauses self ! current_clause_index self))
               (c_system_prompt (current_clauses self ! current_clause_index self)), self))
   \<and> (\<not> no_document_id self
        \<and> current_clause_index self < length (current_clauses self)
        \<and> validate_response rs user_response (current_clauses self ! current_clause_index self)
            = Inr r
        \<and> valid r
        \<and> get_document_agent (self_db self) (the (current_document_id self)) = Some doc_agent
      \<longrightarrow> fst (agent_process_clause_response rs self user_response)
          = SectionCompleted (c_section_name (current_clauses self ! current_clause_index self))
              user_response
        \<and> (\<exists>stored.
             get_document_agent
               (self_db (snd (agent_process_clause_response rs self user_response)))
               (the (current_document_id self)) = Some stored
             \<and> map_of (da_content stored)
                  (c_section_name (current_clauses self ! current_clause_index self))
               = Some user_response
             \<and> da_current_clause_order stored
               = c_order_num (current_clauses self ! current_clause_index self)))"
proof (intro conjI impI)
  assume "get_live_document_by_id db doc_id = None"
  then show "process_clause_response db doc_id clause_id user_response filled_content
             = (Inl (DocumentNotFound doc_id), db)"
    by (simp add: process_clause_response_def)
next
  assume "get_live_document_by_id db doc_id = Some live_doc
        \<and> get_template_by_id db (ld_doc_template_id live_doc) = None"
  then show "process_clause_response db doc_id clause_id user_response filled_content
          = (Inl (TemplateNotFound (ld_doc_template_id live_doc)), db)"
    by (simp add: process_clause_response_def)
next
  assume "get_live_document_by_id db doc_id = Some live_doc
        \<and> get_template_by_id db (ld_doc_template_id live_doc) = Some template
        \<and> get_clauses_by_template db (dt_id template) = []"
  then show "process_clause_response db doc_id clause_id user_response filled_content
          = (Inl (TemplateWithoutClauses (dt_id template)), db)"
    by (simp add: process_clause_response_def Let_def)
next
  assume "get_live_document_by_id db doc_id = Some live_doc
        \<and> get_template_by_id db (ld_doc_template_id live_doc) = Some template
        \<and> get_clauses_by_template db (dt_id template) \<noteq> []
        \<and> find (\<lambda>c. tc_id c = clause_id) (get_clauses_by_template db (dt_id template)) = None"
  then show "process_clause_response db doc_id clause_id user_response filled_content
             = (Inl (ClauseNotFound clause_id), db)"
    by (simp add: process_clause_response_def Let_def)
next
  assume "get_live_document_by_id db doc_id = Some live_doc
        \<and> get_template_by_id db (ld_doc_template_id live_doc) = Some template
        \<and> find (\<lambda>c. tc_id c = clause_id) (get_clauses_by_template db (dt_id template))
            = Some current_clause"
  then show "\<exists>info. fst (process_clause_response db doc_id clause_id user_response filled_content)
                   = Inr info"
    using process_clause_response_stores [of db doc_id live_doc template clause_id current_clause]
    by blast
next
  assume h: "get_live_document_by_id db doc_id = Some live_doc
        \<and> get_template_by_id db (ld_doc_template_id live_doc) = Some template
        \<and> find (\<lambda>c. tc_id c = clause_id) (get_clauses_by_template db (dt_id template))
            = Some current_clause
        \<and> find (\<lambda>c. tc_order_num c = tc_order_num current_clause + 1)
             (get_clauses_by_template db (dt_id template)) = Some next_clause"
  then have 1: "get_live_document_by_id db doc_id = Some live_doc"
    and 2: "get_template_by_id db (ld_doc_template_id live_doc) = Some template"
    and 3: "find (\<lambda>c. tc_id c = clause_id) (get_clauses_by_template db (dt_id template))
            = Some current_clause"
    and 4: "find (\<lambda>c. tc_order_num c = tc_order_num current_clause + 1)
             (get_clauses_by_template db (dt_id template)) = Some next_clause"
    by simp_all
  show "\<exists>stored.
             get_live_document_by_id
               (snd (process_clause_response db doc_id clause_id user_response filled_content))
               doc_id = Some stored
             \<and> map_of (ld_content stored) (tc_section_name current_clause) = Some filled_content
             \<and> ld_current_clause_order stored = tc_order_num current_clause + 1
             \<and> ld_status stored = ld_status live_doc"
    by (rule process_clause_response_writes [OF 1 2 3 4])
next
  assume "no_document_id self \<or> current_clause_index self \<ge> length (current_clauses self)"
  then show "agent_process_clause_response rs self user_response = (NoActiveSession, self)"
    by (auto simp: agent_process_clause_response_def)
next
  assume "\<not> no_document_id self
        \<and> current_clause_index self < length (current_clauses self)
        \<and> validate_response rs user_response (current_clauses self ! current_clause_index self)
            = Inr r
        \<and> \<not> valid r"
  then show "agent_process_clause_response rs self user_response
          = (ValidationAlert (message r)
               (c_section_name (current_clauses self ! current_clause_index self))
               (c_system_prompt (current_clauses self ! current_clause_index self)), self)"
    by (simp add: agent_process_clause_response_def Let_def)
next
  assume h: "\<not> no_document_id self
        \<and> current_clause_index self < length (current_clauses self)
        \<and> validate_response rs user_response (current_clauses self ! current_clause_index self)
            = Inr r
        \<and> valid r
        \<and> get_document_agent (self_db self) (the (current_document_id self)) = Some doc_agent"
  then have a: "\<not> no_document_id self"
    and b: "current_clause_index self < length (current_clauses self)"
    and c: "validate_response rs user_response (current_clauses self ! current_clause_index self)
            = Inr r"
    and d: "valid r"
    and e: "get_document_agent (self_db self) (the (current_document_id self)) = Some doc_agent"
    by simp_all
  note p = agent_accepts [OF a b c d e]
  show "fst (agent_process_clause_response rs self user_response)
          = SectionCompleted (c_section_name (current_clauses self ! current_clause_index self))
              user_response"
    by (rule p [THEN conjunct1])
  show "\<exists>stored.
             get_document_agent
               (self_db (snd (agent_process_clause_response rs self user_response)))
               (the (current_document_id self)) = Some stored
             \<and> map_of (da_content stored)
                  (c_section_name (current_clauses self ! current_clause_index self))
               = Some user_response
             \<and> da_current_clause_order stored
               = c_order_num (current_clauses self ! current_clause_index self)"
    using p [THEN conjunct2] by (simp add: map_of_update_same)
qed


lemma nda_store_empty_template:
  "get_clauses_by_template (nda_store [] documents) 1 = []"
  by (simp add: get_clauses_by_template_def nda_store_def)

theorem process_clause_response_resolution_witness:
  "process_clause_response (nda_store two_mandatory []) 1 10 ''Acme'' ''Acme''
     = (Inl (DocumentNotFound 1), nda_store two_mandatory [])
   \<and> process_clause_response (nda_store [] [mk_document ''in_progress'' [] 1]) 1 10
        ''Acme'' ''Acme''
     = (Inl (TemplateWithoutClauses 1), nda_store [] [mk_document ''in_progress'' [] 1])
   \<and> process_clause_response (nda_store two_mandatory [mk_document ''in_progress'' [] 1]) 1 12
        ''Acme'' ''Acme''
     = (Inl (ClauseNotFound 12), nda_store two_mandatory [mk_document ''in_progress'' [] 1])
   \<and> (\<exists>stored.
         get_live_document_by_id
           (snd (process_clause_response
                   (nda_store two_mandatory [mk_document ''in_progress'' [] 1]) 1 10
                   ''Acme'' ''Acme'')) 1 = Some stored
         \<and> map_of (ld_content stored) ''Parties'' = Some ''Acme''
         \<and> ld_current_clause_order stored = 2
         \<and> ld_status stored = ''in_progress'')
   \<and> agent_process_clause_response no_regex (agent_session\<lparr>current_clause_index := 2\<rparr>) ''Acme''
     = (NoActiveSession, agent_session\<lparr>current_clause_index := 2\<rparr>)
   \<and> (\<exists>stored.
         get_document_agent
           (self_db (snd (agent_process_clause_response no_regex
                            (agent_session\<lparr>current_clause_index := 0\<rparr>) ''Beta Ltd.''))) 1
         = Some stored
         \<and> map_of (da_content stored) ''Parties'' = Some ''Beta Ltd.''
         \<and> da_current_clause_order stored = 1)"
proof -
  let ?doc = "mk_document ''in_progress'' [] 1"
  let ?db = "nda_store two_mandatory [?doc]"
  let ?dbe = "nda_store [] [?doc]"
  let ?t = "\<lparr>dt_id = 1, dt_agent_id = ''nilo'', dt_name = ''NDA-A'',
           dt_description = ''Non-disclosure agreement'', dt_active = True\<rparr>"
  let ?c = "mk_clause 10 1 ''Parties'' ''mandatory''"
  let ?n = "mk_clause 11 2 ''Term'' ''mandatory''"
  let ?past = "agent_session\<lparr>current_clause_index := 2\<rparr>"
  let ?first = "agent_session\<lparr>current_clause_index := 0\<rparr>"
  let ?da = "\<lparr>da_id = 1, da_doc_template_id = 1, da_content = [(''Parties'', ''Acme Inc.'')],
              da_status = ''in_progress'', da_current_clause_order = 1\<rparr>"
  note T = process_clause_response_resolution
  have 0: "get_live_document_by_id (nda_store two_mandatory []) 1 = None"
    by (simp add: get_live_document_by_id_def nda_store_def)
  have 1: "process_clause_response (nda_store two_mandatory []) 1 10 ''Acme'' ''Acme''
     = (Inl (DocumentNotFound 1), nda_store two_mandatory [])"
    by (rule T [THEN conjunct1, THEN mp, OF 0])
  have he: "get_live_document_by_id ?dbe 1 = Some ?doc
        \<and> get_template_by_id ?dbe (ld_doc_template_id ?doc) = Some ?t
        \<and> get_clauses_by_template ?dbe (dt_id ?t) = []"
    by (simp add: nda_store_document nda_store_template nda_store_empty_template)
  have "process_clause_response ?dbe 1 10 ''Acme'' ''Acme''
        = (Inl (TemplateWithoutClauses (dt_id ?t)), ?dbe)"
    by (rule T [THEN conjunct2, THEN conjunct2, THEN conjunct1, THEN mp, OF he])
  then have e: "process_clause_response ?dbe 1 10 ''Acme'' ''Acme''
        = (Inl (TemplateWithoutClauses 1), ?dbe)"
    by simp
  have h2: "get_live_document_by_id ?db 1 = Some ?doc
        \<and> get_template_by_id ?db (ld_doc_template_id ?doc) = Some ?t
        \<and> get_clauses_by_template ?db (dt_id ?t) \<noteq> []
        \<and> find (\<lambda>c. tc_id c = 12) (get_clauses_by_template ?db (dt_id ?t)) = None"
    by (simp add: nda_store_document nda_store_template two_mandatory_clauses
          two_mandatory_not_empty)
       (simp add: two_mandatory_def)
  have 2: "process_clause_response ?db 1 12 ''Acme'' ''Acme'' = (Inl (ClauseNotFound 12), ?db)"
    by (rule T [THEN conjunct2, THEN conjunct2, THEN conjunct2, THEN conjunct1, THEN mp, OF h2])
  have h3: "get_live_document_by_id ?db 1 = Some ?doc
        \<and> get_template_by_id ?db (ld_doc_template_id ?doc) = Some ?t
        \<and> find (\<lambda>c. tc_id c = 10) (get_clauses_by_template ?db (dt_id ?t)) = Some ?c
        \<and> find (\<lambda>c. tc_order_num c = tc_order_num ?c + 1)
             (get_clauses_by_template ?db (dt_id ?t)) = Some ?n"
    by (simp add: nda_store_document nda_store_template two_mandatory_clauses two_mandatory_find)
  have "\<exists>stored.
          get_live_document_by_id (snd (process_clause_response ?db 1 10 ''Acme'' ''Acme'')) 1
          = Some stored
          \<and> map_of (ld_content stored) (tc_section_name ?c) = Some ''Acme''
          \<and> ld_current_clause_order stored = tc_order_num ?c + 1
          \<and> ld_status stored = ld_status ?doc"
    by (rule T [THEN conjunct2, THEN conjunct2, THEN conjunct2, THEN conjunct2, THEN conjunct2,
                THEN conjunct1, THEN mp, OF h3])
  then have 3: "\<exists>stored.
          get_live_document_by_id (snd (process_clause_response ?db 1 10 ''Acme'' ''Acme'')) 1
          = Some stored
          \<and> map_of (ld_content stored) ''Parties'' = Some ''Acme''
          \<and> ld_current_clause_order stored = 2
          \<and> ld_status stored = ''in_progress''"
    by simp
  have h4: "no_document_id ?past \<or> current_clause_index ?past \<ge> length (current_clauses ?past)"
    by (simp add: agent_session_def)
  have 4: "agent_process_clause_response no_regex ?past ''Acme'' = (NoActiveSession, ?past)"
    by (rule T [THEN conjunct2, THEN conjunct2, THEN conjunct2, THEN conjunct2, THEN conjunct2,
                THEN conjunct2, THEN conjunct1, THEN mp, OF h4])
  have h5: "\<not> no_document_id ?first
        \<and> current_clause_index ?first < length (current_clauses ?first)
        \<and> validate_response no_regex ''Beta Ltd.'' (current_clauses ?first ! current_clause_index ?first)
            = Inr \<lparr>valid = True, message = []\<rparr>
        \<and> valid \<lparr>valid = True, message = []\<rparr>
        \<and> get_document_agent (self_db ?first) (the (current_document_id ?first)) = Some ?da"
    by (simp add: no_document_id_def agent_session_def validate_response_def parties_clause_def
          get_document_agent_def)
  have s: "c_section_name (current_clauses ?first ! current_clause_index ?first) = ''Parties''"
    and o: "c_order_num (current_clauses ?first ! current_clause_index ?first) = 1"
    and i: "the (current_document_id ?first) = 1"
    by (simp_all add: agent_session_def parties_clause_def)
  have "\<exists>stored.
          get_document_agent
            (self_db (snd (agent_process_clause_response no_regex ?first ''Beta Ltd.'')))
            (the (current_document_id ?first)) = Some stored
          \<and> map_of (da_content stored)
               (c_section_name (current_clauses ?first ! current_clause_index ?first))
            = Some ''Beta Ltd.''
          \<and> da_current_clause_order stored
            = c_order_num (current_clauses ?first ! current_clause_index ?first)"
    by (rule T [THEN conjunct2, THEN conjunct2, THEN conjunct2, THEN conjunct2, THEN conjunct2,
                THEN conjunct2, THEN conjunct2, THEN conjunct2, THEN mp, OF h5, THEN conjunct2])
  then have 5: "\<exists>stored.
          get_document_agent
            (self_db (snd (agent_process_clause_response no_regex ?first ''Beta Ltd.''))) 1
          = Some stored
          \<and> map_of (da_content stored) ''Parties'' = Some ''Beta Ltd.''
          \<and> da_current_clause_order stored = 1"
    by (simp only: s o i)
  from 1 e 2 3 4 5 show ?thesis by blast
qed


text \<open>
  C4 as stated fails: a completed document is not refused, and the clause is not taken
  from the stored cursor. The document is completed with cursor 2; an answer for the
  clause with id 10, numbered 1, is accepted and replaces the content of "Parties".
\<close>

theorem completed_document_accepts_answer:
  "get_live_document_by_id
     (nda_store two_mandatory
        [mk_document ''completed'' [(''Parties'', ''Acme''), (''Term'', ''5 years'')] 2]) 1
     = Some (mk_document ''completed'' [(''Parties'', ''Acme''), (''Term'', ''5 years'')] 2)
   \<and> fst (process_clause_response
            (nda_store two_mandatory
               [mk_document ''completed'' [(''Parties'', ''Acme''), (''Term'', ''5 years'')] 2])
            1 10 ''Other'' ''Other'')
     = Inr \<lparr>di_id = 1, di_template_id = 1, di_template_name = ''NDA-A'',
            di_current_clause = clause_info (mk_clause 11 2 ''Term'' ''mandatory''),
            di_content = [(''Parties'', ''Other''), (''Term'', ''5 years'')],
            di_status = ''completed''\<rparr>
   \<and> get_live_document_by_id
        (snd (process_clause_response
                (nda_store two_mandatory
                   [mk_document ''completed'' [(''Parties'', ''Acme''), (''Term'', ''5 years'')] 2])
                1 10 ''Other'' ''Other'')) 1
     = Some (mk_document ''completed'' [(''Parties'', ''Other''), (''Term'', ''5 years'')] 2)"
proof -
  let ?doc = "mk_document ''completed'' [(''Parties'', ''Acme''), (''Term'', ''5 years'')] 2"
  let ?db = "nda_store two_mandatory [?doc]"
  let ?t = "\<lparr>dt_id = 1, dt_agent_id = ''nilo'', dt_name = ''NDA-A'',
           dt_description = ''Non-disclosure agreement'', dt_active = True\<rparr>"
  let ?c = "mk_clause 10 1 ''Parties'' ''mandatory''"
  let ?n = "mk_clause 11 2 ''Term'' ''mandatory''"
  have 1: "get_live_document_by_id ?db 1 = Some ?doc"
    by (rule nda_store_document)
  have 2: "get_template_by_id ?db (ld_doc_template_id ?doc) = Some ?t"
    by (simp add: nda_store_template)
  have 3: "find (\<lambda>c. tc_id c = 10) (get_clauses_by_template ?db (dt_id ?t)) = Some ?c"
    by (simp add: two_mandatory_clauses two_mandatory_find)
  have 4: "find (\<lambda>c. tc_order_num c = tc_order_num ?c + 1)
             (get_clauses_by_template ?db (dt_id ?t)) = Some ?n"
    by (simp add: two_mandatory_clauses two_mandatory_find)
  note p = process_clause_response_next [OF 1 2 3 4, of "''Other''" "''Other''"]
  have a: "fst (process_clause_response ?db 1 10 ''Other'' ''Other'')
     = Inr \<lparr>di_id = 1, di_template_id = 1, di_template_name = ''NDA-A'',
            di_current_clause = clause_info ?n,
            di_content = [(''Parties'', ''Other''), (''Term'', ''5 years'')],
            di_status = ''completed''\<rparr>"
    using p [THEN conjunct1] by simp
  have b: "get_live_document_by_id (snd (process_clause_response ?db 1 10 ''Other'' ''Other'')) 1
     = Some (mk_document ''completed'' [(''Parties'', ''Other''), (''Term'', ''5 years'')] 2)"
    using p [THEN conjunct2, THEN conjunct2] by (simp add: mk_document_def)
  from 1 a b show ?thesis by blast
qed

section \<open>What is stored for an answer\<close>

lemma fill_term_template:
  "validate_and_fill_clause (clause_info term_template_clause) ''5'' = ''Valid for 5 years.''"
  by code_simp

lemma template_clauses_example_sorted:
  "get_clauses_by_template (nda_store template_clauses_example documents) 1
   = template_clauses_example"
  by (simp add: get_clauses_by_template_def nda_store_def template_clauses_example_def
        term_template_clause_def)


lemma replace_absent:
  assumes "old \<noteq> []"
  shows "\<not> str_in old s \<Longrightarrow> replace old new s = s"
proof (induction s)
  case Nil
  show ?case using assms by (simp add: replace.simps [of old new "[]"])
next
  case (Cons c cs)
  then have "\<not> prefix old (c # cs)" and "replace old new cs = cs"
    by simp_all
  then show ?case
    using assms by (simp add: replace.simps [of old new "c # cs"])
qed

lemma fill_placeholder_replace:
  "fill_placeholder user_response filled field_name
   = replace (''{'' @ field_name @ ''}'') user_response filled"
  by (simp add: fill_placeholder_def Let_def replace_absent)

lemma foldl_fill_placeholder:
  "foldl (fill_placeholder user_response) filled names = fill_in_order user_response names filled"
  by (induction names arbitrary: filled) (simp_all add: fill_placeholder_replace)

lemma validate_and_fill_clause_fill_in_order:
  assumes "ci_content_template clause = Some content_template" and "content_template \<noteq> []"
  shows "validate_and_fill_clause clause user_response
         = fill_in_order user_response (map fst (ci_placeholders clause)) content_template"
  using assms by (simp add: validate_and_fill_clause_def foldl_fill_placeholder)

lemma two_slot_fill: "fill_in_order ''{b}!'' [''a'', ''b''] ''{a}{b}'' = ''{b}!!{b}!''"
  by code_simp

text \<open>
  C3, as the code has it. The document tool stores the filled content it is given, not
  the answer: when the template has a clause numbered one more than the answered clause,
  the stored row has that content under the answered clause's section. The workflow
  computes the filled content from the clause. Without a content template, or with an
  empty one, it is the raw answer. With a content template, the placeholders are taken in
  their order, and for each the slots \<open>{name}\<close> of the text so far are replaced by the
  answer, so that a slot the answer itself brings in is replaced by a later placeholder;
  with no placeholders the content is the template. The agent's tool stores the raw
  answer in the store.
\<close>

theorem stored_content_is_filled_content:
  "(get_live_document_by_id db doc_id = Some live_doc
      \<and> get_template_by_id db (ld_doc_template_id live_doc) = Some template
      \<and> find (\<lambda>c. tc_id c = clause_id) (get_clauses_by_template db (dt_id template))
          = Some current_clause
      \<and> find (\<lambda>c. tc_order_num c = tc_order_num current_clause + 1)
           (get_clauses_by_template db (dt_id template)) = Some next_clause
    \<longrightarrow> (\<exists>stored.
           get_live_document_by_id
             (snd (process_clause_response db doc_id clause_id user_response filled_content))
             doc_id = Some stored
           \<and> map_of (ld_content stored) (tc_section_name current_clause) = Some filled_content))
   \<and> (get_live_document_by_id db (di_id doc_info) = Some live_doc
      \<and> get_template_by_id db (ld_doc_template_id live_doc) = Some template
      \<and> find (\<lambda>c. tc_id c = ci_id (di_current_clause doc_info))
           (get_clauses_by_template db (dt_id template)) = Some current_clause
      \<and> find (\<lambda>c. tc_order_num c = tc_order_num current_clause + 1)
           (get_clauses_by_template db (dt_id template)) = Some next_clause
      \<and> filled = validate_and_fill_clause (di_current_clause doc_info) user_response
      \<and> filled \<noteq> []
    \<longrightarrow> (\<exists>info db' stored.
           process_document_response db (Some doc_info) user_response = Some (Inr info, db')
           \<and> get_live_document_by_id db' (di_id doc_info) = Some stored
           \<and> map_of (ld_content stored) (tc_section_name current_clause) = Some filled))
   \<and> (ci_content_template clause = None \<or> ci_content_template clause = Some []
      \<longrightarrow> validate_and_fill_clause clause user_response = user_response)
   \<and> (ci_content_template clause = Some content_template \<and> content_template \<noteq> []
      \<longrightarrow> validate_and_fill_clause clause user_response
          = fill_in_order user_response (map fst (ci_placeholders clause)) content_template)
   \<and> (\<not> no_document_id self
        \<and> current_clause_index self < length (current_clauses self)
        \<and> validate_response rs user_response (current_clauses self ! current_clause_index self)
            = Inr r
        \<and> valid r
        \<and> get_document_agent (self_db self) (the (current_document_id self)) = Some doc_agent
      \<longrightarrow> (\<exists>stored.
             get_document_agent (self_db (snd (agent_process_clause_response rs self user_response)))
               (the (current_document_id self)) = Some stored
             \<and> map_of (da_content stored)
                  (c_section_name (current_clauses self ! current_clause_index self))
               = Some user_response))"
proof (intro conjI impI)
  assume "get_live_document_by_id db doc_id = Some live_doc
      \<and> get_template_by_id db (ld_doc_template_id live_doc) = Some template
      \<and> find (\<lambda>c. tc_id c = clause_id) (get_clauses_by_template db (dt_id template))
          = Some current_clause
      \<and> find (\<lambda>c. tc_order_num c = tc_order_num current_clause + 1)
           (get_clauses_by_template db (dt_id template)) = Some next_clause"
  then show "\<exists>stored.
           get_live_document_by_id
             (snd (process_clause_response db doc_id clause_id user_response filled_content))
             doc_id = Some stored
           \<and> map_of (ld_content stored) (tc_section_name current_clause) = Some filled_content"
    using process_clause_response_writes
            [of db doc_id live_doc template clause_id current_clause next_clause
                user_response filled_content]
    by blast
next
  assume h: "get_live_document_by_id db (di_id doc_info) = Some live_doc
      \<and> get_template_by_id db (ld_doc_template_id live_doc) = Some template
      \<and> find (\<lambda>c. tc_id c = ci_id (di_current_clause doc_info))
           (get_clauses_by_template db (dt_id template)) = Some current_clause
      \<and> find (\<lambda>c. tc_order_num c = tc_order_num current_clause + 1)
           (get_clauses_by_template db (dt_id template)) = Some next_clause
      \<and> filled = validate_and_fill_clause (di_current_clause doc_info) user_response
      \<and> filled \<noteq> []"
  then have d: "get_live_document_by_id db (di_id doc_info) = Some live_doc"
    and t: "get_template_by_id db (ld_doc_template_id live_doc) = Some template"
    and c: "find (\<lambda>c. tc_id c = ci_id (di_current_clause doc_info))
              (get_clauses_by_template db (dt_id template)) = Some current_clause"
    and x: "find (\<lambda>c. tc_order_num c = tc_order_num current_clause + 1)
              (get_clauses_by_template db (dt_id template)) = Some next_clause"
    and f: "validate_and_fill_clause (di_current_clause doc_info) user_response = filled"
    and n: "filled \<noteq> []"
    by auto
  let ?result = "process_clause_response db (di_id doc_info)
                   (ci_id (di_current_clause doc_info)) user_response filled"
  obtain info where i: "fst ?result = Inr info"
    using process_clause_response_stores [OF d t c, of user_response filled] by blast
  obtain stored where s: "get_live_document_by_id (snd ?result) (di_id doc_info) = Some stored"
    and m: "map_of (ld_content stored) (tc_section_name current_clause) = Some filled"
    using process_clause_response_writes [OF d t c x, of user_response filled] by blast
  have "process_document_response db (Some doc_info) user_response
        = Some (Inr info, snd ?result)"
    using f n i by (simp add: process_document_response_def Let_def prod_eq_iff)
  then show "\<exists>info db' stored.
           process_document_response db (Some doc_info) user_response = Some (Inr info, db')
           \<and> get_live_document_by_id db' (di_id doc_info) = Some stored
           \<and> map_of (ld_content stored) (tc_section_name current_clause) = Some filled"
    using s m by blast
next
  assume "ci_content_template clause = None \<or> ci_content_template clause = Some []"
  then show "validate_and_fill_clause clause user_response = user_response"
    by (auto simp: validate_and_fill_clause_def)
next
  assume "ci_content_template clause = Some content_template \<and> content_template \<noteq> []"
  then show "validate_and_fill_clause clause user_response
          = fill_in_order user_response (map fst (ci_placeholders clause)) content_template"
    by (simp add: validate_and_fill_clause_fill_in_order)
next
  assume h: "\<not> no_document_id self
        \<and> current_clause_index self < length (current_clauses self)
        \<and> validate_response rs user_response (current_clauses self ! current_clause_index self)
            = Inr r
        \<and> valid r
        \<and> get_document_agent (self_db self) (the (current_document_id self)) = Some doc_agent"
  then have a: "\<not> no_document_id self"
    and b: "current_clause_index self < length (current_clauses self)"
    and c: "validate_response rs user_response (current_clauses self ! current_clause_index self)
            = Inr r"
    and d: "valid r"
    and e: "get_document_agent (self_db self) (the (current_document_id self)) = Some doc_agent"
    by simp_all
  show "\<exists>stored.
             get_document_agent (self_db (snd (agent_process_clause_response rs self user_response)))
               (the (current_document_id self)) = Some stored
             \<and> map_of (da_content stored)
                  (c_section_name (current_clauses self ! current_clause_index self))
               = Some user_response"
    using agent_accepts [OF a b c d e, THEN conjunct2] by (simp add: map_of_update_same)
qed

theorem stored_content_is_filled_content_witness:
  "(\<exists>info db' stored.
      process_document_response
        (nda_store template_clauses_example [mk_document ''in_progress'' [] 1])
        (Some term_doc_info) ''5''
      = Some (Inr info, db')
      \<and> get_live_document_by_id db' 1 = Some stored
      \<and> map_of (ld_content stored) ''Term'' = Some ''Valid for 5 years.'')
   \<and> validate_and_fill_clause (clause_info (mk_clause 11 2 ''Law'' ''optional'')) ''English law''
     = ''English law''
   \<and> validate_and_fill_clause two_slot_clause ''{b}!'' = ''{b}!!{b}!''"
proof -
  let ?doc = "mk_document ''in_progress'' [] 1"
  let ?db = "nda_store template_clauses_example [?doc]"
  let ?t = "\<lparr>dt_id = 1, dt_agent_id = ''nilo'', dt_name = ''NDA-A'',
           dt_description = ''Non-disclosure agreement'', dt_active = True\<rparr>"
  let ?n = "mk_clause 11 2 ''Law'' ''optional''"
  note T = stored_content_is_filled_content
  have h: "get_live_document_by_id ?db (di_id term_doc_info) = Some ?doc
      \<and> get_template_by_id ?db (ld_doc_template_id ?doc) = Some ?t
      \<and> find (\<lambda>c. tc_id c = ci_id (di_current_clause term_doc_info))
           (get_clauses_by_template ?db (dt_id ?t)) = Some term_template_clause
      \<and> find (\<lambda>c. tc_order_num c = tc_order_num term_template_clause + 1)
           (get_clauses_by_template ?db (dt_id ?t)) = Some ?n
      \<and> ''Valid for 5 years.'' = validate_and_fill_clause (di_current_clause term_doc_info) ''5''
      \<and> ''Valid for 5 years.'' \<noteq> []"
    by (simp add: term_doc_info_def nda_store_document nda_store_template
          template_clauses_example_sorted fill_term_template)
       (simp add: template_clauses_example_def term_template_clause_def clause_info_def)
  have i: "di_id term_doc_info = 1"
    and sn: "tc_section_name term_template_clause = ''Term''"
    by (simp_all add: term_doc_info_def term_template_clause_def)
  have "\<exists>info db' stored.
          process_document_response ?db (Some term_doc_info) ''5'' = Some (Inr info, db')
          \<and> get_live_document_by_id db' (di_id term_doc_info) = Some stored
          \<and> map_of (ld_content stored) (tc_section_name term_template_clause)
            = Some ''Valid for 5 years.''"
    by (rule T [THEN conjunct2, THEN conjunct1, THEN mp, OF h])
  then have 1: "\<exists>info db' stored.
          process_document_response ?db (Some term_doc_info) ''5'' = Some (Inr info, db')
          \<and> get_live_document_by_id db' 1 = Some stored
          \<and> map_of (ld_content stored) ''Term'' = Some ''Valid for 5 years.''"
    by (simp only: i sn)
  have n: "ci_content_template (clause_info ?n) = None
           \<or> ci_content_template (clause_info ?n) = Some []"
    by (simp add: clause_info_def)
  have 2: "validate_and_fill_clause (clause_info ?n) ''English law'' = ''English law''"
    by (rule T [THEN conjunct2, THEN conjunct2, THEN conjunct1, THEN mp, OF n])
  have s: "ci_content_template two_slot_clause = Some ''{a}{b}'' \<and> ''{a}{b}'' \<noteq> []"
    by (simp add: two_slot_clause_def)
  have p: "map fst (ci_placeholders two_slot_clause) = [''a'', ''b'']"
    by (simp add: two_slot_clause_def)
  have "validate_and_fill_clause two_slot_clause ''{b}!''
        = fill_in_order ''{b}!'' (map fst (ci_placeholders two_slot_clause)) ''{a}{b}''"
    by (rule T [THEN conjunct2, THEN conjunct2, THEN conjunct2, THEN conjunct1, THEN mp, OF s])
  then have 3: "validate_and_fill_clause two_slot_clause ''{b}!'' = ''{b}!!{b}!''"
    by (simp only: p two_slot_fill)
  from 1 2 3 show ?thesis by blast
qed

text \<open>
  C3 as stated fails: for a clause with the content template "Valid for {years} years."
  and the answer "5", the workflow calls the tool with the filled template, and the
  stored content of "Term" is "Valid for 5 years.", not "5".
\<close>

theorem template_is_substituted:
  "process_document_response
     (nda_store template_clauses_example [mk_document ''in_progress'' [] 1])
     (Some term_doc_info) ''5''
   = Some (process_clause_response
             (nda_store template_clauses_example [mk_document ''in_progress'' [] 1])
             1 10 ''5'' ''Valid for 5 years.'')
   \<and> get_live_document_by_id
       (snd (process_clause_response
               (nda_store template_clauses_example [mk_document ''in_progress'' [] 1])
               1 10 ''5'' ''Valid for 5 years.'')) 1
     = Some (mk_document ''in_progress'' [(''Term'', ''Valid for 5 years.'')] 2)"
proof -
  let ?doc = "mk_document ''in_progress'' [] 1"
  let ?db = "nda_store template_clauses_example [?doc]"
  let ?t = "\<lparr>dt_id = 1, dt_agent_id = ''nilo'', dt_name = ''NDA-A'',
           dt_description = ''Non-disclosure agreement'', dt_active = True\<rparr>"
  let ?n = "mk_clause 11 2 ''Law'' ''optional''"
  have 1: "get_live_document_by_id ?db 1 = Some ?doc"
    by (rule nda_store_document)
  have 2: "get_template_by_id ?db (ld_doc_template_id ?doc) = Some ?t"
    by (simp add: nda_store_template)
  have 3: "find (\<lambda>c. tc_id c = 10) (get_clauses_by_template ?db (dt_id ?t))
           = Some term_template_clause"
    by (simp add: template_clauses_example_sorted)
       (simp add: template_clauses_example_def term_template_clause_def)
  have 4: "find (\<lambda>c. tc_order_num c = tc_order_num term_template_clause + 1)
             (get_clauses_by_template ?db (dt_id ?t)) = Some ?n"
    by (simp add: template_clauses_example_sorted)
       (simp add: template_clauses_example_def term_template_clause_def)
  have a: "process_document_response ?db (Some term_doc_info) ''5''
           = Some (process_clause_response ?db 1 10 ''5'' ''Valid for 5 years.'')"
    using fill_term_template
    by (simp add: process_document_response_def Let_def term_doc_info_def)
       (simp add: clause_info_def term_template_clause_def)
  have b: "get_live_document_by_id
             (snd (process_clause_response ?db 1 10 ''5'' ''Valid for 5 years.'')) 1
           = Some (mk_document ''in_progress'' [(''Term'', ''Valid for 5 years.'')] 2)"
    using process_clause_response_next
            [OF 1 2 3 4, of "''5''" "''Valid for 5 years.''", THEN conjunct2, THEN conjunct2]
    by (simp add: mk_document_def term_template_clause_def)
  from a b show ?thesis by (rule conjI)
qed

end
